theory Spec2Isabelle
  imports Main "HOL-Library.Word"
begin

section \<open>JavaScript strings\<close>

text \<open>
  A JavaScript string is a sequence of UTF-16 code units, and \<open>.length\<close> counts code
  units. String literals of the source are ASCII; \<open>lit\<close> embeds them.
\<close>

type_synonym jsstring = "16 word list"

definition lit :: "string \<Rightarrow> jsstring" where
  "lit s = map (\<lambda>c. of_nat (of_char c)) s"

text \<open>
  The code units that \<open>String.prototype.trim\<close> and \<open>parseInt\<close> strip: WhiteSpace and
  LineTerminator of ECMAScript (TAB, LF, VT, FF, CR, SP, NBSP, U+1680, U+2000..U+200A,
  U+2028, U+2029, U+202F, U+205F, U+3000, U+FEFF).
\<close>

definition isWhiteSpace :: "16 word \<Rightarrow> bool" where
  "isWhiteSpace c =
     (c = 0x9 \<or> c = 0xA \<or> c = 0xB \<or> c = 0xC \<or> c = 0xD \<or> c = 0x20 \<or> c = 0xA0
      \<or> c = 0x1680 \<or> (0x2000 \<le> c \<and> c \<le> 0x200A) \<or> c = 0x2028 \<or> c = 0x2029
      \<or> c = 0x202F \<or> c = 0x205F \<or> c = 0x3000 \<or> c = 0xFEFF)"

definition trim :: "jsstring \<Rightarrow> jsstring" where
  "trim s = rev (dropWhile isWhiteSpace (rev (dropWhile isWhiteSpace s)))"

definition startsWith :: "jsstring \<Rightarrow> jsstring \<Rightarrow> bool" where
  "startsWith s p = (take (length p) s = p)"

text \<open>\<open>s.includes(p)\<close>: \<open>p\<close> occurs in \<open>s\<close> as a contiguous run.\<close>

fun js_includes :: "jsstring \<Rightarrow> jsstring \<Rightarrow> bool" where
  "js_includes [] p = (p = [])"
| "js_includes (c # cs) p = (startsWith (c # cs) p \<or> js_includes cs p)"

text \<open>The decimal rendering of a non-negative integer in a template literal.\<close>

fun decimal :: "nat \<Rightarrow> jsstring" where
  "decimal n =
     (if n < 10 then [of_nat (48 + n)]
      else decimal (n div 10) @ [of_nat (48 + n mod 10)])"

declare decimal.simps [simp del]

text \<open>\<open>a || b\<close> on optional strings: \<open>undefined\<close> and the empty string are falsy.\<close>

definition truthy :: "jsstring option \<Rightarrow> bool" where
  "truthy v = (case v of None \<Rightarrow> False | Some s \<Rightarrow> s \<noteq> [])"

definition or_else :: "jsstring option \<Rightarrow> jsstring \<Rightarrow> jsstring" where
  "or_else v d = (case v of None \<Rightarrow> d | Some s \<Rightarrow> if s = [] then d else s)"

section \<open>JavaScript numbers holding integers\<close>

text \<open>
  The numbers of this program come from \<open>parseInt\<close> and from \<open>Number(bigint)\<close>: they are
  doubles whose value is an integer, an infinity or NaN. A mathematical integer becomes
  the nearest double (ties to even, 53 significant bits), infinite from \<open>2 ^ 1024\<close> on.
\<close>

datatype js_number = NaN | Num int | PosInfinity | NegInfinity

fun bit_length :: "nat \<Rightarrow> nat" where
  "bit_length n = (if n = 0 then 0 else Suc (bit_length (n div 2)))"

declare bit_length.simps [simp del]

definition nearest_double :: "nat \<Rightarrow> nat option" where
  "nearest_double n =
     (let e = bit_length n - 53;
          q = n div 2 ^ e;
          r = n mod 2 ^ e;
          q' = (if 2 ^ e < 2 * r \<or> (2 * r = 2 ^ e \<and> odd q) then q + 1 else q);
          v = q' * 2 ^ e
      in if 2 ^ 1024 \<le> v then None else Some v)"

definition to_number :: "bool \<Rightarrow> nat \<Rightarrow> js_number" where
  "to_number negative n =
     (case nearest_double n of
        None \<Rightarrow> (if negative then NegInfinity else PosInfinity)
      | Some v \<Rightarrow> Num (if negative then - int v else int v))"

text \<open>\<open>Number(b)\<close> for a bigint \<open>b\<close>.\<close>

definition Number_of_bigint :: "int \<Rightarrow> js_number" where
  "Number_of_bigint b = to_number (b < 0) (nat \<bar>b\<bar>)"

text \<open>\<open>BigInt(x)\<close> for a number \<open>x\<close>: a RangeError unless \<open>x\<close> is an integer.\<close>

definition BigInt :: "js_number \<Rightarrow> int option" where
  "BigInt x = (case x of Num i \<Rightarrow> Some i | _ \<Rightarrow> None)"

definition isNaN :: "js_number \<Rightarrow> bool" where
  "isNaN x = (x = NaN)"

text \<open>\<open>x <= 0\<close>; every comparison with NaN is false.\<close>

definition le_zero :: "js_number \<Rightarrow> bool" where
  "le_zero x =
     (case x of NaN \<Rightarrow> False | Num i \<Rightarrow> i \<le> 0 | PosInfinity \<Rightarrow> False | NegInfinity \<Rightarrow> True)"

definition isDigit :: "16 word \<Rightarrow> bool" where
  "isDigit c = (0x30 \<le> c \<and> c \<le> 0x39)"

definition digits_value :: "jsstring \<Rightarrow> nat" where
  "digits_value z = foldl (\<lambda>a c. 10 * a + (unat c - 48)) 0 z"

text \<open>
  \<open>parseInt(s, 10)\<close>: leading white space is skipped, one sign is read, then the longest
  run of decimal digits; no digit gives NaN, and what follows the digits is ignored.
\<close>

definition parseInt10 :: "jsstring \<Rightarrow> js_number" where
  "parseInt10 s =
     (let S = dropWhile isWhiteSpace s;
          negative = (case S of [] \<Rightarrow> False | c # _ \<Rightarrow> c = 0x2D);
          S' = (case S of [] \<Rightarrow> [] | c # cs \<Rightarrow> if c = 0x2B \<or> c = 0x2D then cs else S);
          Z = takeWhile isDigit S'
      in if Z = [] then NaN else to_number negative (digits_value Z))"

section \<open>Exceptions\<close>

text \<open>
  A thrown value is an \<open>Error\<close> object with its message, or some other value, kept as
  what \<open>String(err)\<close> gives for it.
\<close>

datatype js_exn = Error jsstring | Thrown jsstring

section \<open>config.ts\<close>

record PublicTerminalConfig =
  fid :: js_number
  username :: jsstring
  privateKey :: jsstring
  apiBaseUrl :: "jsstring option"
  rpcUrl :: "jsstring option"

definition CONFIG_DEFAULT_API_URL :: jsstring where
  "CONFIG_DEFAULT_API_URL = lit ''https://public-terminal.vercel.app''"

definition CONFIG_DEFAULT_RPC_URL :: jsstring where
  "CONFIG_DEFAULT_RPC_URL = lit ''https://mainnet.base.org''"

definition missing_fid :: jsstring where
  "missing_fid =
     lit ''Missing PUBLIC_TERMINAL_FID environment variable. Set your Farcaster FID.''"

definition missing_username :: jsstring where
  "missing_username =
     lit ''Missing PUBLIC_TERMINAL_USERNAME environment variable. Set your Farcaster username.''"

definition missing_privateKey :: jsstring where
  "missing_privateKey =
     lit ''Missing PUBLIC_TERMINAL_PRIVATE_KEY environment variable. Set the private key for a wallet verified with your FID.''"

definition invalid_fid :: "jsstring \<Rightarrow> jsstring" where
  "invalid_fid f =
     lit (''Invalid PUBLIC_TERMINAL_FID: '' @ [CHR 0x22]) @ f
       @ lit ([CHR 0x22] @ ''. Must be a positive integer.'')"

definition invalid_privateKey :: jsstring where
  "invalid_privateKey = lit ''Invalid PUBLIC_TERMINAL_PRIVATE_KEY: must start with 0x''"

text \<open>
  \<open>process.env\<close> is a map from variable names to strings. \<open>!v\<close> holds of an unset
  variable and of an empty one.
\<close>

type_synonym environment = "string \<Rightarrow> jsstring option"

definition nonempty :: "jsstring option \<Rightarrow> jsstring option" where
  "nonempty v = (if truthy v then v else None)"

definition loadConfig :: "environment \<Rightarrow> js_exn + PublicTerminalConfig" where
  "loadConfig env =
     (case nonempty (env ''PUBLIC_TERMINAL_FID'') of
        None \<Rightarrow> Inl (Error missing_fid)
      | Some fid_str \<Rightarrow>
     (case nonempty (env ''PUBLIC_TERMINAL_USERNAME'') of
        None \<Rightarrow> Inl (Error missing_username)
      | Some username_str \<Rightarrow>
     (case nonempty (env ''PUBLIC_TERMINAL_PRIVATE_KEY'') of
        None \<Rightarrow> Inl (Error missing_privateKey)
      | Some privateKey_str \<Rightarrow>
          let fidNumber = parseInt10 fid_str in
          if isNaN fidNumber \<or> le_zero fidNumber then Inl (Error (invalid_fid fid_str))
          else if \<not> startsWith privateKey_str (lit ''0x'') then Inl (Error invalid_privateKey)
          else Inr \<lparr> fid = fidNumber,
                     username = username_str,
                     privateKey = privateKey_str,
                     apiBaseUrl =
                       Some (or_else (env ''PUBLIC_TERMINAL_API_URL'') CONFIG_DEFAULT_API_URL),
                     rpcUrl =
                       Some (or_else (env ''PUBLIC_TERMINAL_RPC_URL'') CONFIG_DEFAULT_RPC_URL) \<rparr>)))"

section \<open>contract.ts\<close>

definition CONTRACT_ADDRESS :: jsstring where
  "CONTRACT_ADDRESS = lit ''0x1C89997a8643A8E380305F0078BB8210e3952e1C''"

definition PRICE_WEI :: int where
  "PRICE_WEI = 500000000000000"

definition PIN_PRICE_WEI :: int where
  "PIN_PRICE_WEI = 5000000000000000"

definition MAX_MESSAGE_LENGTH :: nat where
  "MAX_MESSAGE_LENGTH = 120"

text \<open>
  An ABI parameter has a name, a type and, for a tuple, its components; the parameters of
  an event are paired with their \<open>indexed\<close> flag.
\<close>

datatype abi_param = Param string string "abi_param list"

datatype abi_item =
    AbiFunction string "abi_param list" "abi_param list" string
  | AbiEvent string "(abi_param \<times> bool) list"

definition mint_inputs :: "abi_param list" where
  "mint_inputs =
     [Param ''fid'' ''uint256'' [], Param ''username'' ''string'' [],
      Param ''text'' ''string'' [], Param ''signature'' ''bytes'' []]"

definition PUBLIC_TERMINAL_ABI :: "abi_item list" where
  "PUBLIC_TERMINAL_ABI =
     [AbiFunction ''mint'' mint_inputs [] ''payable'',
      AbiFunction ''mintSticky'' mint_inputs [] ''payable'',
      AbiFunction ''getRecentMessages'' [Param ''count'' ''uint256'' []]
        [Param [] ''tuple[]''
           [Param ''id'' ''uint256'' [], Param ''author'' ''address'' [],
            Param ''fid'' ''uint256'' [], Param ''username'' ''string'' [],
            Param ''text'' ''string'' [], Param ''timestamp'' ''uint256'' [],
            Param ''usernameColor'' ''bytes3'' []]]
        ''view'',
      AbiFunction ''getMessageCount'' [] [Param [] ''uint256'' []] ''view'',
      AbiEvent ''MessageMinted''
        [(Param ''author'' ''address'' [], True), (Param ''tokenId'' ''uint256'' [], True),
         (Param ''fid'' ''uint256'' [], True), (Param ''username'' ''string'' [], False),
         (Param ''text'' ''string'' [], False), (Param ''timestamp'' ''uint256'' [], False),
         (Param ''usernameColor'' ''bytes3'' [], False)],
      AbiEvent ''StickySet''
        [(Param ''tokenId'' ''uint256'' [], True), (Param ''author'' ''address'' [], True)]]"

fun function_name :: "abi_item \<Rightarrow> string option" where
  "function_name (AbiFunction n _ _ _) = Some n"
| "function_name (AbiEvent _ _) = None"

definition abi_functions :: "abi_item list \<Rightarrow> string list" where
  "abi_functions items = List.map_filter function_name items"

section \<open>types.ts\<close>

record PostMessageResult =
  success :: bool
  tokenId :: "js_number option"
  txHash :: "jsstring option"
  error :: "jsstring option"

section \<open>The collaborators of postMessage.ts\<close>

text \<open>
  The signing API is reached through \<open>fetch\<close>; the chain through viem's
  \<open>writeContract\<close> and \<open>waitForTransactionReceipt\<close>; \<open>privateKeyToAccount\<close> and
  \<open>decodeEventLog\<close> are viem's too. Each is a parameter of the model, and each may throw.
\<close>

record sign_mint_request =
  request_url :: jsstring
  body_fid :: js_number
  body_username :: jsstring
  body_text :: jsstring
  body_address :: jsstring

text \<open>The parsed body, read as \<open>SignMintResponse | SignMintError\<close>; an absent field is \<open>None\<close>.\<close>

record sign_mint_data =
  data_error :: "jsstring option"
  data_signature :: "jsstring option"

record http_response =
  ok :: bool
  json :: "js_exn + sign_mint_data"

record write_contract_request =
  transport :: jsstring
  account :: jsstring
  address :: jsstring
  abi :: "abi_item list"
  functionName :: string
  args :: "int \<times> jsstring \<times> jsstring \<times> jsstring option"
  tx_value :: int

record log_entry =
  log_data :: jsstring
  log_topics :: "jsstring list"

datatype receipt_status = StatusSuccess | StatusReverted

record receipt =
  status :: receipt_status
  logs :: "log_entry list"

record decoded_args =
  args_tokenId :: "int option"

record decoded_event =
  eventName :: string
  event_args :: "decoded_args option"

record world =
  process_env :: environment
  privateKeyToAccount :: "jsstring \<Rightarrow> js_exn + jsstring"
  fetch :: "sign_mint_request \<Rightarrow> js_exn + http_response"
  writeContract :: "write_contract_request \<Rightarrow> js_exn + jsstring"
  waitForTransactionReceipt :: "jsstring \<Rightarrow> jsstring \<Rightarrow> js_exn + receipt"
  decodeEventLog :: "abi_item list \<Rightarrow> log_entry \<Rightarrow> js_exn + decoded_event"
  BigInt_RangeError :: js_exn

text \<open>The calls a run makes to its collaborators, in order.\<close>

datatype call =
    Fetch sign_mint_request
  | WriteContract write_contract_request
  | WaitForTransactionReceipt jsstring jsstring
  | DecodeEventLog log_entry

section \<open>postMessage.ts\<close>

definition DEFAULT_API_URL :: jsstring where
  "DEFAULT_API_URL = lit ''https://publicterminal.app''"

definition DEFAULT_RPC_URL :: jsstring where
  "DEFAULT_RPC_URL = lit ''https://mainnet.base.org''"

text \<open>
  A run returns a result object or rejects with the exception that escaped it, and it
  leaves the list of the calls it made.
\<close>

type_synonym 'a run = "(js_exn + 'a) \<times> call list"

datatype signature_result = SignatureError jsstring | Signature "jsstring option"

text \<open>
  \<open>getSignature\<close>: one POST to \<open>/api/sign-mint\<close>. The body is parsed before the status
  is looked at; neither \<open>fetch\<close> nor \<open>response.json()\<close> is inside a \<open>try\<close>.
\<close>

definition getSignature ::
  "world \<Rightarrow> PublicTerminalConfig \<Rightarrow> jsstring \<Rightarrow> jsstring \<Rightarrow> signature_result run" where
  "getSignature w config text walletAddress =
     (let apiUrl = or_else (apiBaseUrl config) DEFAULT_API_URL;
          request = \<lparr> request_url = apiUrl @ lit ''/api/sign-mint'',
                      body_fid = fid config,
                      body_username = username config,
                      body_text = text,
                      body_address = walletAddress \<rparr>
      in case fetch w request of
           Inl err \<Rightarrow> (Inl err, [Fetch request])
         | Inr response \<Rightarrow>
             (case json response of
                Inl err \<Rightarrow> (Inl err, [Fetch request])
              | Inr data \<Rightarrow>
                  if \<not> ok response
                  then (Inr (SignatureError
                          (or_else (data_error data) (lit ''Failed to get signature from API''))),
                        [Fetch request])
                  else (Inr (Signature (data_signature data)), [Fetch request])))"

text \<open>
  The loop over \<open>receipt.logs\<close>: a log whose decoding throws is passed over, and so is a
  decoded event that is not a \<open>MessageMinted\<close> carrying a \<open>tokenId\<close>; the first that is
  one ends the loop with \<open>Number(args.tokenId)\<close>.
\<close>

fun scanLogs ::
  "(log_entry \<Rightarrow> js_exn + decoded_event) \<Rightarrow> log_entry list \<Rightarrow> js_number option \<times> call list" where
  "scanLogs decode [] = (None, [])"
| "scanLogs decode (l # ls) =
     (let continue = (case scanLogs decode ls of (t, calls) \<Rightarrow> (t, DecodeEventLog l # calls))
      in case decode l of
           Inl err \<Rightarrow> continue
         | Inr decoded \<Rightarrow>
             if eventName decoded = ''MessageMinted''
             then (case event_args decoded of
                     None \<Rightarrow> continue
                   | Some a \<Rightarrow>
                       (case args_tokenId a of
                          None \<Rightarrow> continue
                        | Some t \<Rightarrow> (Some (Number_of_bigint t), [DecodeEventLog l])))
             else continue)"

definition failure :: "jsstring \<Rightarrow> PostMessageResult" where
  "failure e = \<lparr> success = False, tokenId = None, txHash = None, error = Some e \<rparr>"

definition text_too_long :: "nat \<Rightarrow> jsstring" where
  "text_too_long n =
     lit ''Text too long: '' @ decimal n @ lit '' characters (max '' @ decimal MAX_MESSAGE_LENGTH
       @ lit '')''"

text \<open>\<open>err instanceof Error ? err.message : String(err)\<close>\<close>

definition errorMessage :: "js_exn \<Rightarrow> jsstring" where
  "errorMessage err = (case err of Error m \<Rightarrow> m | Thrown s \<Rightarrow> s)"

text \<open>
  What both posting functions do with the receipt once it has arrived: the status test,
  the loop over the logs and the result object. It throws nothing.
\<close>

definition interpretReceipt :: "world \<Rightarrow> jsstring \<Rightarrow> receipt \<Rightarrow> PostMessageResult \<times> call list" where
  "interpretReceipt w hash r =
     (if status r \<noteq> StatusSuccess
      then (\<lparr> success = False, tokenId = None, txHash = Some hash,
              error = Some (lit ''Transaction reverted'') \<rparr>, [])
      else
        (case scanLogs (decodeEventLog w PUBLIC_TERMINAL_ABI) (logs r) of
           (t, decodes) \<Rightarrow>
             (\<lparr> success = True, tokenId = t, txHash = Some hash, error = None \<rparr>, decodes)))"

text \<open>The body of the \<open>try\<close> of \<open>postMessage\<close>; \<open>Inl\<close> is what it throws.\<close>

definition postMessage_try ::
  "world \<Rightarrow> PublicTerminalConfig \<Rightarrow> jsstring \<Rightarrow> jsstring \<Rightarrow> jsstring option \<Rightarrow> jsstring
     \<Rightarrow> PostMessageResult run" where
  "postMessage_try w config trimmedText walletAddress signature rpc =
     (case BigInt (fid config) of
        None \<Rightarrow> (Inl (BigInt_RangeError w), [])
      | Some fid_big \<Rightarrow>
          let request = \<lparr> transport = rpc,
                          account = walletAddress,
                          address = CONTRACT_ADDRESS,
                          abi = PUBLIC_TERMINAL_ABI,
                          functionName = ''mint'',
                          args = (fid_big, username config, trimmedText, signature),
                          tx_value = PRICE_WEI \<rparr>
          in case writeContract w request of
               Inl err \<Rightarrow> (Inl err, [WriteContract request])
             | Inr hash \<Rightarrow>
                 (case waitForTransactionReceipt w rpc hash of
                    Inl err \<Rightarrow>
                      (Inl err, [WriteContract request, WaitForTransactionReceipt rpc hash])
                  | Inr r \<Rightarrow>
                      (case interpretReceipt w hash r of
                         (result, decodes) \<Rightarrow>
                           (Inr result,
                            [WriteContract request, WaitForTransactionReceipt rpc hash]
                              @ decodes))))"

text \<open>The \<open>catch\<close> of \<open>postMessage\<close>.\<close>

definition postMessage_catch :: "js_exn \<Rightarrow> PostMessageResult" where
  "postMessage_catch err =
     (let m = errorMessage err
      in if js_includes m (lit ''InsufficientPayment'')
         then failure (lit ''Insufficient funds. You need 0.0005 ETH to post.'')
         else if js_includes m (lit ''MessageTooLong'')
         then failure (lit ''Message too long. Max '' @ decimal MAX_MESSAGE_LENGTH
                         @ lit '' characters.'')
         else if js_includes m (lit ''InvalidSignature'')
         then failure (lit ''Signature verification failed. Ensure your wallet is verified for your FID.'')
         else failure m)"

text \<open>
  \<open>postMessage\<close>. Its parameter is a string, so of the first test only \<open>!text\<close> is left:
  the empty string.
\<close>

definition postMessage :: "world \<Rightarrow> jsstring \<Rightarrow> PostMessageResult run" where
  "postMessage w text =
     (if text = [] then (Inr (failure (lit ''Text must be a non-empty string'')), [])
      else
        let trimmedText = trim text in
        if length trimmedText = 0 then (Inr (failure (lit ''Text cannot be empty'')), [])
        else if MAX_MESSAGE_LENGTH < length trimmedText
        then (Inr (failure (text_too_long (length trimmedText))), [])
        else
          (case loadConfig (process_env w) of
             Inl err \<Rightarrow>
               (Inr (failure (case err of Error m \<Rightarrow> m
                              | Thrown _ \<Rightarrow> lit ''Failed to load configuration'')), [])
           | Inr config \<Rightarrow>
               (case privateKeyToAccount w (privateKey config) of
                  Inl err \<Rightarrow> (Inl err, [])
                | Inr walletAddress \<Rightarrow>
                    (case getSignature w config trimmedText walletAddress of
                       (Inl err, calls) \<Rightarrow> (Inl err, calls)
                     | (Inr (SignatureError e), calls) \<Rightarrow> (Inr (failure e), calls)
                     | (Inr (Signature signature), calls) \<Rightarrow>
                         let rpc = or_else (rpcUrl config) DEFAULT_RPC_URL in
                         (case postMessage_try w config trimmedText walletAddress signature rpc of
                            (Inl err, calls') \<Rightarrow> (Inr (postMessage_catch err), calls @ calls')
                          | (Inr result, calls') \<Rightarrow> (Inr result, calls @ calls'))))))"

text \<open>The body of the \<open>try\<close> of \<open>postPinMessage\<close>.\<close>

definition postPinMessage_try ::
  "world \<Rightarrow> PublicTerminalConfig \<Rightarrow> jsstring \<Rightarrow> jsstring \<Rightarrow> jsstring option \<Rightarrow> jsstring
     \<Rightarrow> PostMessageResult run" where
  "postPinMessage_try w config trimmedText walletAddress signature rpc =
     (case BigInt (fid config) of
        None \<Rightarrow> (Inl (BigInt_RangeError w), [])
      | Some fid_big \<Rightarrow>
          let request = \<lparr> transport = rpc,
                          account = walletAddress,
                          address = CONTRACT_ADDRESS,
                          abi = PUBLIC_TERMINAL_ABI,
                          functionName = ''mintPin'',
                          args = (fid_big, username config, trimmedText, signature),
                          tx_value = PIN_PRICE_WEI \<rparr>
          in case writeContract w request of
               Inl err \<Rightarrow> (Inl err, [WriteContract request])
             | Inr hash \<Rightarrow>
                 (case waitForTransactionReceipt w rpc hash of
                    Inl err \<Rightarrow>
                      (Inl err, [WriteContract request, WaitForTransactionReceipt rpc hash])
                  | Inr r \<Rightarrow>
                      (case interpretReceipt w hash r of
                         (result, decodes) \<Rightarrow>
                           (Inr result,
                            [WriteContract request, WaitForTransactionReceipt rpc hash]
                              @ decodes))))"

text \<open>The \<open>catch\<close> of \<open>postPinMessage\<close>.\<close>

definition postPinMessage_catch :: "js_exn \<Rightarrow> PostMessageResult" where
  "postPinMessage_catch err =
     (let m = errorMessage err
      in if js_includes m (lit ''InsufficientPayment'')
         then failure (lit ''Insufficient funds. Pinned posts cost 0.005 ETH.'')
         else if js_includes m (lit ''MessageTooLong'')
         then failure (lit ''Message too long. Max '' @ decimal MAX_MESSAGE_LENGTH
                         @ lit '' characters.'')
         else if js_includes m (lit ''InvalidSignature'')
         then failure (lit ''Signature verification failed. Ensure your wallet is verified for your FID.'')
         else failure m)"

definition postPinMessage :: "world \<Rightarrow> jsstring \<Rightarrow> PostMessageResult run" where
  "postPinMessage w text =
     (if text = [] then (Inr (failure (lit ''Text must be a non-empty string'')), [])
      else
        let trimmedText = trim text in
        if length trimmedText = 0 then (Inr (failure (lit ''Text cannot be empty'')), [])
        else if MAX_MESSAGE_LENGTH < length trimmedText
        then (Inr (failure (text_too_long (length trimmedText))), [])
        else
          (case loadConfig (process_env w) of
             Inl err \<Rightarrow>
               (Inr (failure (case err of Error m \<Rightarrow> m
                              | Thrown _ \<Rightarrow> lit ''Failed to load configuration'')), [])
           | Inr config \<Rightarrow>
               (case privateKeyToAccount w (privateKey config) of
                  Inl err \<Rightarrow> (Inl err, [])
                | Inr walletAddress \<Rightarrow>
                    (case getSignature w config trimmedText walletAddress of
                       (Inl err, calls) \<Rightarrow> (Inl err, calls)
                     | (Inr (SignatureError e), calls) \<Rightarrow> (Inr (failure e), calls)
                     | (Inr (Signature signature), calls) \<Rightarrow>
                         let rpc = or_else (rpcUrl config) DEFAULT_RPC_URL in
                         (case postPinMessage_try w config trimmedText walletAddress signature rpc of
                            (Inl err, calls') \<Rightarrow> (Inr (postPinMessage_catch err), calls @ calls')
                          | (Inr result, calls') \<Rightarrow> (Inr result, calls @ calls'))))))"

section \<open>Example environments\<close>

definition env3 :: "jsstring option \<Rightarrow> jsstring option \<Rightarrow> jsstring option \<Rightarrow> environment" where
  "env3 f u k =
     (\<lambda>n. if n = ''PUBLIC_TERMINAL_FID'' then f
          else if n = ''PUBLIC_TERMINAL_USERNAME'' then u
          else if n = ''PUBLIC_TERMINAL_PRIVATE_KEY'' then k
          else None)"

section \<open>Vocabulary of the properties\<close>

text \<open>
  What the loop takes from one decoding: the \<open>tokenId\<close> of a \<open>MessageMinted\<close> event, and
  nothing from a decoding that throws, from another event, or from an event without one.
\<close>

definition mint_tokenId :: "js_exn + decoded_event \<Rightarrow> int option" where
  "mint_tokenId res =
     (case res of
        Inl _ \<Rightarrow> None
      | Inr d \<Rightarrow>
          if eventName d = ''MessageMinted''
          then (case event_args d of None \<Rightarrow> None | Some a \<Rightarrow> args_tokenId a)
          else None)"

definition decodes_as_mint :: "js_exn + decoded_event \<Rightarrow> bool" where
  "decodes_as_mint res = (case res of Inl _ \<Rightarrow> False | Inr d \<Rightarrow> eventName d = ''MessageMinted'')"

text \<open>
  The two well-formedness tests as the specification words them, to be compared with the
  tests of \<open>loadConfig\<close>. An identity-id that is a positive integer: a decimal numeral,
  nothing but digits, whose value is greater than zero. A signing key that is a private
  key's encoding: the 32-byte secret of the data model in hexadecimal, \<open>0x\<close> and 64
  hexadecimal digits.
\<close>

definition spec_positive_integer :: "jsstring \<Rightarrow> bool" where
  "spec_positive_integer s = (s \<noteq> [] \<and> list_all isDigit s \<and> 0 < digits_value s)"

definition isHexDigit :: "16 word \<Rightarrow> bool" where
  "isHexDigit c =
     ((0x30 \<le> c \<and> c \<le> 0x39) \<or> (0x41 \<le> c \<and> c \<le> 0x46) \<or> (0x61 \<le> c \<and> c \<le> 0x66))"

definition spec_private_key_encoding :: "jsstring \<Rightarrow> bool" where
  "spec_private_key_encoding k =
     (startsWith k (lit ''0x'') \<and> length k = 66 \<and> list_all isHexDigit (drop 2 k))"

section \<open>The two posting functions as one pipeline\<close>

text \<open>
  \<open>postMessage\<close> and \<open>postPinMessage\<close> are the same text but for the contract function
  they name, the payment they attach and the hint of their \<open>catch\<close> for an insufficient
  payment. \<open>post_try\<close> and \<open>post_with\<close> are that text with the three as parameters; the
  properties are proved of them once and carried to the two functions by equality.
\<close>

definition post_try ::
  "string \<Rightarrow> int \<Rightarrow> world \<Rightarrow> PublicTerminalConfig \<Rightarrow> jsstring \<Rightarrow> jsstring \<Rightarrow> jsstring option
     \<Rightarrow> jsstring \<Rightarrow> PostMessageResult run" where
  "post_try fn price w config trimmedText walletAddress signature rpc =
     (case BigInt (fid config) of
        None \<Rightarrow> (Inl (BigInt_RangeError w), [])
      | Some fid_big \<Rightarrow>
          let request = \<lparr> transport = rpc,
                          account = walletAddress,
                          address = CONTRACT_ADDRESS,
                          abi = PUBLIC_TERMINAL_ABI,
                          functionName = fn,
                          args = (fid_big, username config, trimmedText, signature),
                          tx_value = price \<rparr>
          in case writeContract w request of
               Inl err \<Rightarrow> (Inl err, [WriteContract request])
             | Inr hash \<Rightarrow>
                 (case waitForTransactionReceipt w rpc hash of
                    Inl err \<Rightarrow>
                      (Inl err, [WriteContract request, WaitForTransactionReceipt rpc hash])
                  | Inr r \<Rightarrow>
                      (case interpretReceipt w hash r of
                         (result, decodes) \<Rightarrow>
                           (Inr result,
                            [WriteContract request, WaitForTransactionReceipt rpc hash]
                              @ decodes))))"

definition post_with ::
  "string \<Rightarrow> int \<Rightarrow> (js_exn \<Rightarrow> PostMessageResult) \<Rightarrow> world \<Rightarrow> jsstring \<Rightarrow> PostMessageResult run" where
  "post_with fn price handler w text =
     (if text = [] then (Inr (failure (lit ''Text must be a non-empty string'')), [])
      else
        let trimmedText = trim text in
        if length trimmedText = 0 then (Inr (failure (lit ''Text cannot be empty'')), [])
        else if MAX_MESSAGE_LENGTH < length trimmedText
        then (Inr (failure (text_too_long (length trimmedText))), [])
        else
          (case loadConfig (process_env w) of
             Inl err \<Rightarrow>
               (Inr (failure (case err of Error m \<Rightarrow> m
                              | Thrown _ \<Rightarrow> lit ''Failed to load configuration'')), [])
           | Inr config \<Rightarrow>
               (case privateKeyToAccount w (privateKey config) of
                  Inl err \<Rightarrow> (Inl err, [])
                | Inr walletAddress \<Rightarrow>
                    (case getSignature w config trimmedText walletAddress of
                       (Inl err, calls) \<Rightarrow> (Inl err, calls)
                     | (Inr (SignatureError e), calls) \<Rightarrow> (Inr (failure e), calls)
                     | (Inr (Signature signature), calls) \<Rightarrow>
                         let rpc = or_else (rpcUrl config) DEFAULT_RPC_URL in
                         (case post_try fn price w config trimmedText walletAddress signature rpc of
                            (Inl err, calls') \<Rightarrow> (Inr (handler err), calls @ calls')
                          | (Inr result, calls') \<Rightarrow> (Inr result, calls @ calls'))))))"

text \<open>The request \<open>getSignature\<close> sends and the one \<open>writeContract\<close> is given.\<close>

definition sign_request :: "PublicTerminalConfig \<Rightarrow> jsstring \<Rightarrow> jsstring \<Rightarrow> sign_mint_request" where
  "sign_request config text walletAddress =
     \<lparr> request_url = or_else (apiBaseUrl config) DEFAULT_API_URL @ lit ''/api/sign-mint'',
       body_fid = fid config,
       body_username = username config,
       body_text = text,
       body_address = walletAddress \<rparr>"

definition write_request ::
  "string \<Rightarrow> int \<Rightarrow> PublicTerminalConfig \<Rightarrow> int \<Rightarrow> jsstring \<Rightarrow> jsstring \<Rightarrow> jsstring option
     \<Rightarrow> write_contract_request" where
  "write_request fn price config fid_big trimmedText walletAddress signature =
     \<lparr> transport = or_else (rpcUrl config) DEFAULT_RPC_URL,
       account = walletAddress,
       address = CONTRACT_ADDRESS,
       abi = PUBLIC_TERMINAL_ABI,
       functionName = fn,
       args = (fid_big, username config, trimmedText, signature),
       tx_value = price \<rparr>"

text \<open>The rest of a run once the configuration is loaded and the wallet address derived.\<close>

definition signed_run ::
  "string \<Rightarrow> int \<Rightarrow> (js_exn \<Rightarrow> PostMessageResult) \<Rightarrow> world \<Rightarrow> PublicTerminalConfig \<Rightarrow> jsstring
     \<Rightarrow> jsstring \<Rightarrow> PostMessageResult run" where
  "signed_run fn price handler w c a t =
     (case fst (getSignature w c t a) of
        Inl err \<Rightarrow> (Inl err, [Fetch (sign_request c t a)])
      | Inr (SignatureError e) \<Rightarrow> (Inr (failure e), [Fetch (sign_request c t a)])
      | Inr (Signature s) \<Rightarrow>
          (case post_try fn price w c t a s (or_else (rpcUrl c) DEFAULT_RPC_URL) of
             (Inl err, calls') \<Rightarrow> (Inr (handler err), Fetch (sign_request c t a) # calls')
           | (Inr result, calls') \<Rightarrow> (Inr result, Fetch (sign_request c t a) # calls')))"

section \<open>Example worlds\<close>

text \<open>
  A world for the concrete runs: the environment names agent 12345 and a 32-byte key,
  every key derives one wallet address, and the answers of the signing API, of the two chain calls and of the
  decoder are given.
\<close>

definition example_privateKey :: jsstring where
  "example_privateKey =
     lit ''0x0123456789abcdef0123456789abcdef0123456789abcdef0123456789abcdef''"

definition example_world ::
  "(js_exn + http_response) \<Rightarrow> (js_exn + jsstring) \<Rightarrow> (js_exn + receipt)
     \<Rightarrow> (log_entry \<Rightarrow> js_exn + decoded_event) \<Rightarrow> world" where
  "example_world response written confirmed decode =
     \<lparr> process_env = env3 (Some (lit ''12345'')) (Some (lit ''myagent'')) (Some example_privateKey),
       privateKeyToAccount = (\<lambda>k. Inr (lit ''0xA11CE'')),
       fetch = (\<lambda>rq. response),
       writeContract = (\<lambda>rq. written),
       waitForTransactionReceipt = (\<lambda>rpc h. confirmed),
       decodeEventLog = (\<lambda>items. decode),
       BigInt_RangeError = Error (lit ''not an integer'') \<rparr>"

definition example_config :: PublicTerminalConfig where
  "example_config =
     \<lparr> fid = Num 12345, username = lit ''myagent'', privateKey = example_privateKey,
       apiBaseUrl = Some CONFIG_DEFAULT_API_URL, rpcUrl = Some CONFIG_DEFAULT_RPC_URL \<rparr>"

text \<open>
  A decoder for the concrete runs: a log with the topics \<open>minted\<close> and a decimal number is
  a \<open>MessageMinted\<close> event with that number as its \<open>tokenId\<close>, one with the topics
  \<open>sticky\<close> and a number is a \<open>StickySet\<close> event, and any other log is not of this ABI.
\<close>

definition example_decode :: "log_entry \<Rightarrow> js_exn + decoded_event" where
  "example_decode l =
     (case log_topics l of
        [k, t] \<Rightarrow>
          if k = lit ''minted''
          then Inr \<lparr> eventName = ''MessageMinted'',
                     event_args = Some \<lparr> args_tokenId = Some (int (digits_value t)) \<rparr> \<rparr>
          else if k = lit ''sticky''
          then Inr \<lparr> eventName = ''StickySet'',
                     event_args = Some \<lparr> args_tokenId = Some (int (digits_value t)) \<rparr> \<rparr>
          else Inl (Error (lit ''event signature not found''))
      | _ \<Rightarrow> Inl (Error (lit ''event signature not found'')))"

definition signed_response :: "js_exn + http_response" where
  "signed_response =
     Inr \<lparr> ok = True,
           json = Inr \<lparr> data_error = None, data_signature = Some (lit ''0xabc'') \<rparr> \<rparr>"

definition minted_log :: "string \<Rightarrow> log_entry" where
  "minted_log t = \<lparr> log_data = lit ''0x'', log_topics = [lit ''minted'', lit t] \<rparr>"

definition sticky_log :: "string \<Rightarrow> log_entry" where
  "sticky_log t = \<lparr> log_data = lit ''0x'', log_topics = [lit ''sticky'', lit t] \<rparr>"

definition foreign_log :: log_entry where
  "foreign_log = \<lparr> log_data = lit ''0x'', log_topics = [lit ''transfer''] \<rparr>"

definition example_hash :: jsstring where
  "example_hash = lit ''0xhash''"

definition example_sign_request :: sign_mint_request where
  "example_sign_request = sign_request example_config (lit ''hi'') (lit ''0xA11CE'')"

definition example_write_request :: "string \<Rightarrow> int \<Rightarrow> write_contract_request" where
  "example_write_request fn price =
     write_request fn price example_config 12345 (lit ''hi'') (lit ''0xA11CE'') (Some (lit ''0xabc''))"

definition example_rpc :: jsstring where
  "example_rpc = or_else (rpcUrl example_config) DEFAULT_RPC_URL"

section \<open>Configuration loading\<close>






text \<open>The theorem at six environments, one for each outcome.\<close>

lemmas eval_parseInt =
  parseInt10_def lit_def isWhiteSpace_def isDigit_def digits_value_def to_number_def
  nearest_double_def bit_length.simps


lemma digit_not_white_or_sign:
  assumes "isDigit c"
  shows "\<not> isWhiteSpace c" and "c \<noteq> 0x2B" and "c \<noteq> 0x2D"
proof -
  from assms have u: "48 \<le> unat c" "unat c \<le> 57"
    by (simp_all add: isDigit_def word_le_nat_alt)
  show "\<not> isWhiteSpace c"
  proof
    assume "isWhiteSpace c"
    then have "unat c \<le> 32 \<or> 160 \<le> unat c"
      unfolding isWhiteSpace_def by (auto simp: word_le_nat_alt)
    with u show False by arith
  qed
  show "c \<noteq> 0x2B" using u by auto
  show "c \<noteq> 0x2D" using u by auto
qed

lemma bit_length_lower: "0 < n \<Longrightarrow> 2 ^ (bit_length n - 1) \<le> n"
proof (induction n rule: bit_length.induct)
  case (1 n)
  show ?case
  proof (cases "n div 2 = 0")
    case True
    with 1(2) have "n = 1" by (auto simp: div_eq_0_iff)
    then show ?thesis by (simp add: bit_length.simps)
  next
    case False
    with 1 have ih: "2 ^ (bit_length (n div 2) - 1) \<le> n div 2" by simp
    from False have "0 < bit_length (n div 2)" by (subst bit_length.simps) simp
    then have "(2::nat) ^ bit_length (n div 2) = 2 * 2 ^ (bit_length (n div 2) - 1)"
      by (cases "bit_length (n div 2)") simp_all
    with ih have "2 ^ bit_length (n div 2) \<le> 2 * (n div 2)" by simp
    also have "\<dots> \<le> n" by simp
    finally have "2 ^ bit_length (n div 2) \<le> n" .
    moreover from 1(2) have "bit_length n = Suc (bit_length (n div 2))"
      by (subst bit_length.simps) simp
    ultimately show ?thesis by simp
  qed
qed

lemma nearest_double_positive:
  assumes "0 < n" and "nearest_double n = Some v"
  shows "0 < v"
proof -
  define e where "e = bit_length n - 53"
  have "e \<le> bit_length n - 1" by (simp add: e_def)
  then have "(2::nat) ^ e \<le> 2 ^ (bit_length n - 1)" by (simp add: power_increasing)
  with bit_length_lower [OF assms(1)] have "2 ^ e \<le> n" by linarith
  then have q: "0 < n div 2 ^ e" by (simp add: div_greater_zero_iff)
  from assms(2) have "v = n div 2 ^ e * 2 ^ e \<or> v = (n div 2 ^ e + 1) * 2 ^ e"
    by (auto simp: nearest_double_def Let_def e_def split: if_splits)
  with q show ?thesis by auto
qed

text \<open>What the wording asks for is enough for the tests of the code, which accept more.\<close>

lemma spec_positive_integer_passes:
  assumes "spec_positive_integer f"
  shows "\<not> isNaN (parseInt10 f) \<and> \<not> le_zero (parseInt10 f)"
proof -
  from assms obtain c cs where f: "f = c # cs" and d: "\<forall>x\<in>set f. isDigit x"
    and v: "0 < digits_value f"
    by (cases f) (auto simp: spec_positive_integer_def list_all_iff)
  from d f have c: "isDigit c" by simp
  note w = digit_not_white_or_sign [OF c]
  from d have tw: "takeWhile isDigit f = f" by (simp add: takeWhile_eq_all_conv)
  have p: "parseInt10 f = to_number False (digits_value f)"
    using w tw unfolding parseInt10_def f by (simp add: Let_def)
  show ?thesis
  proof (cases "nearest_double (digits_value f)")
    case None
    then show ?thesis by (simp add: p to_number_def isNaN_def le_zero_def)
  next
    case (Some n)
    with nearest_double_positive [OF v] have "0 < n" by simp
    with Some show ?thesis by (simp add: p to_number_def isNaN_def le_zero_def)
  qed
qed

lemma spec_private_key_encoding_passes:
  "spec_private_key_encoding k \<Longrightarrow> startsWith k (lit ''0x'')"
  by (simp add: spec_private_key_encoding_def)


section \<open>The loop over the logs\<close>

lemma scanLogs_skip:
  "mint_tokenId (decode l) = None \<Longrightarrow>
   scanLogs decode (l # ls) = (fst (scanLogs decode ls), DecodeEventLog l # snd (scanLogs decode ls))"
  by (auto simp: mint_tokenId_def Let_def split: sum.splits option.splits if_splits prod.splits)

lemma scanLogs_hit:
  "mint_tokenId (decode l) = Some t \<Longrightarrow>
   scanLogs decode (l # ls) = (Some (Number_of_bigint t), [DecodeEventLog l])"
  by (auto simp: mint_tokenId_def Let_def split: sum.splits option.splits if_splits prod.splits)

lemma scanLogs_none:
  "\<forall>x\<in>set ls. mint_tokenId (decode x) = None \<Longrightarrow>
   scanLogs decode ls = (None, map DecodeEventLog ls)"
  by (induction ls) (simp_all add: scanLogs_skip del: scanLogs.simps(2))

lemma scanLogs_first:
  "\<forall>x\<in>set pre. mint_tokenId (decode x) = None \<Longrightarrow> mint_tokenId (decode l) = Some t \<Longrightarrow>
   scanLogs decode (pre @ l # post) = (Some (Number_of_bigint t), map DecodeEventLog (pre @ [l]))"
  by (induction pre) (simp_all add: scanLogs_skip scanLogs_hit del: scanLogs.simps(2))

lemma scanLogs_calls: "\<exists>n. snd (scanLogs decode ls) = map DecodeEventLog (take n ls)"
proof (induction ls)
  case Nil
  then show ?case by simp
next
  case (Cons l ls)
  then obtain n where n: "snd (scanLogs decode ls) = map DecodeEventLog (take n ls)" by blast
  show ?case
  proof (cases "mint_tokenId (decode l)")
    case None
    then have "snd (scanLogs decode (l # ls)) = map DecodeEventLog (take (Suc n) (l # ls))"
      by (simp add: scanLogs_skip n del: scanLogs.simps(2))
    then show ?thesis by blast
  next
    case (Some t)
    then have "snd (scanLogs decode (l # ls)) = map DecodeEventLog (take (Suc 0) (l # ls))"
      by (simp add: scanLogs_hit del: scanLogs.simps(2))
    then show ?thesis by blast
  qed
qed

lemma interpretReceipt_calls:
  "\<exists>n. snd (interpretReceipt w hash r) = map DecodeEventLog (take n (logs r))"
proof (cases "status r = StatusSuccess")
  case True
  obtain n where "snd (scanLogs (decodeEventLog w PUBLIC_TERMINAL_ABI) (logs r))
      = map DecodeEventLog (take n (logs r))"
    using scanLogs_calls by blast
  then show ?thesis using True
    by (auto simp: interpretReceipt_def split: prod.splits)
next
  case False
  then have "snd (interpretReceipt w hash r) = map DecodeEventLog (take 0 (logs r))"
    by (simp add: interpretReceipt_def)
  then show ?thesis by blast
qed

lemma interpretReceipt_no_wait:
  "WaitForTransactionReceipt a b \<notin> set (snd (interpretReceipt w hash r))"
  using interpretReceipt_calls [of w hash r] by auto

lemma interpretReceipt_no_write:
  "WriteContract q \<notin> set (snd (interpretReceipt w hash r))"
  using interpretReceipt_calls [of w hash r] by auto

section \<open>The shared pipeline\<close>

lemma postMessage_try_post: "postMessage_try = post_try ''mint'' PRICE_WEI"
  by (intro ext) (simp add: postMessage_try_def post_try_def)

lemma postPinMessage_try_post: "postPinMessage_try = post_try ''mintPin'' PIN_PRICE_WEI"
  by (intro ext) (simp add: postPinMessage_try_def post_try_def)

lemma postMessage_post: "postMessage = post_with ''mint'' PRICE_WEI postMessage_catch"
  unfolding postMessage_def post_with_def postMessage_try_post by (rule refl)

lemma postPinMessage_post: "postPinMessage = post_with ''mintPin'' PIN_PRICE_WEI postPinMessage_catch"
  unfolding postPinMessage_def post_with_def postPinMessage_try_post by (rule refl)

lemma getSignature_calls: "snd (getSignature w c t a) = [Fetch (sign_request c t a)]"
  by (simp add: getSignature_def sign_request_def Let_def split: sum.splits)

lemma getSignature_result:
  "fst (getSignature w c t a) =
     (case fetch w (sign_request c t a) of
        Inl err \<Rightarrow> Inl err
      | Inr response \<Rightarrow>
          (case json response of
             Inl err \<Rightarrow> Inl err
           | Inr d \<Rightarrow>
               if \<not> ok response
               then Inr (SignatureError
                      (or_else (data_error d) (lit ''Failed to get signature from API'')))
               else Inr (Signature (data_signature d))))"
  by (simp add: getSignature_def sign_request_def Let_def split: sum.splits)

lemma post_try_unfold:
  "post_try fn price w c t a s (or_else (rpcUrl c) DEFAULT_RPC_URL) =
     (case BigInt (fid c) of
        None \<Rightarrow> (Inl (BigInt_RangeError w), [])
      | Some fb \<Rightarrow>
          (case writeContract w (write_request fn price c fb t a s) of
             Inl err \<Rightarrow> (Inl err, [WriteContract (write_request fn price c fb t a s)])
           | Inr h \<Rightarrow>
               (case waitForTransactionReceipt w (or_else (rpcUrl c) DEFAULT_RPC_URL) h of
                  Inl err \<Rightarrow>
                    (Inl err, [WriteContract (write_request fn price c fb t a s),
                               WaitForTransactionReceipt (or_else (rpcUrl c) DEFAULT_RPC_URL) h])
                | Inr r \<Rightarrow>
                    (Inr (fst (interpretReceipt w h r)),
                     [WriteContract (write_request fn price c fb t a s),
                      WaitForTransactionReceipt (or_else (rpcUrl c) DEFAULT_RPC_URL) h]
                       @ snd (interpretReceipt w h r)))))"
  by (simp add: post_try_def write_request_def Let_def split: option.splits sum.splits prod.splits)

text \<open>A run that made any call got past validation, configuration and key derivation.\<close>

lemma post_calls_nonempty:
  assumes "snd (post_with fn price handler w text) \<noteq> []"
  shows "\<exists>c a. text \<noteq> [] \<and> 0 < length (trim text) \<and> length (trim text) \<le> MAX_MESSAGE_LENGTH
           \<and> loadConfig (process_env w) = Inr c
           \<and> privateKeyToAccount w (privateKey c) = Inr a
           \<and> post_with fn price handler w text =
               (case getSignature w c (trim text) a of
                  (Inl err, calls) \<Rightarrow> (Inl err, calls)
                | (Inr (SignatureError e), calls) \<Rightarrow> (Inr (failure e), calls)
                | (Inr (Signature s), calls) \<Rightarrow>
                    (case post_try fn price w c (trim text) a s (or_else (rpcUrl c) DEFAULT_RPC_URL) of
                       (Inl err, calls') \<Rightarrow> (Inr (handler err), calls @ calls')
                     | (Inr result, calls') \<Rightarrow> (Inr result, calls @ calls')))"
proof -
  from assms have t: "text \<noteq> []" "0 < length (trim text)" "length (trim text) \<le> MAX_MESSAGE_LENGTH"
    by (auto simp: post_with_def Let_def split: if_splits)
  from assms t obtain c where c: "loadConfig (process_env w) = Inr c"
    by (cases "loadConfig (process_env w)") (auto simp: post_with_def Let_def)
  from assms t c obtain a where a: "privateKeyToAccount w (privateKey c) = Inr a"
    by (cases "privateKeyToAccount w (privateKey c)") (auto simp: post_with_def Let_def)
  show ?thesis
    using t c a
    by (simp add: post_with_def Let_def split: prod.splits sum.splits signature_result.splits)
qed

lemma interpretReceipt_no_fetch:
  "Fetch q \<notin> set (snd (interpretReceipt w hash r))"
  using interpretReceipt_calls [of w hash r] by auto

text \<open>A run that made a call is a \<open>signed_run\<close>.\<close>

lemma post_with_run:
  assumes "snd (post_with fn price handler w text) \<noteq> []"
  shows "\<exists>c a. text \<noteq> [] \<and> 0 < length (trim text) \<and> length (trim text) \<le> MAX_MESSAGE_LENGTH
           \<and> loadConfig (process_env w) = Inr c
           \<and> privateKeyToAccount w (privateKey c) = Inr a
           \<and> post_with fn price handler w text = signed_run fn price handler w c a (trim text)"
proof -
  from post_calls_nonempty [OF assms] obtain c a where
    t: "text \<noteq> []" "0 < length (trim text)" "length (trim text) \<le> MAX_MESSAGE_LENGTH"
    and c: "loadConfig (process_env w) = Inr c"
    and a: "privateKeyToAccount w (privateKey c) = Inr a"
    and eq: "post_with fn price handler w text =
               (case getSignature w c (trim text) a of
                  (Inl err, calls) \<Rightarrow> (Inl err, calls)
                | (Inr (SignatureError e), calls) \<Rightarrow> (Inr (failure e), calls)
                | (Inr (Signature s), calls) \<Rightarrow>
                    (case post_try fn price w c (trim text) a s (or_else (rpcUrl c) DEFAULT_RPC_URL) of
                       (Inl err, calls') \<Rightarrow> (Inr (handler err), calls @ calls')
                     | (Inr result, calls') \<Rightarrow> (Inr result, calls @ calls')))"
    by blast
  obtain g calls where g: "getSignature w c (trim text) a = (g, calls)"
    by (cases "getSignature w c (trim text) a")
  with getSignature_calls [of w c "trim text" a]
  have calls: "calls = [Fetch (sign_request c (trim text) a)]" by simp
  have "post_with fn price handler w text = signed_run fn price handler w c a (trim text)"
    unfolding eq signed_run_def g calls
    by (simp split: sum.splits signature_result.splits prod.splits)
  with t c a show ?thesis by blast
qed

lemma signed_run_fetch:
  "Fetch rq \<in> set (snd (signed_run fn price handler w c a t)) \<Longrightarrow> rq = sign_request c t a"
  by (auto simp: signed_run_def post_try_unfold interpretReceipt_no_fetch
           split: sum.splits signature_result.splits option.splits prod.splits)

lemma signed_run_write:
  "WriteContract rq \<in> set (snd (signed_run fn price handler w c a t)) \<Longrightarrow>
   \<exists>fb s. rq = write_request fn price c fb t a s"
  by (auto simp: signed_run_def post_try_unfold interpretReceipt_no_write
           split: sum.splits signature_result.splits option.splits prod.splits)

lemma signed_run_wait_ok:
  assumes "WaitForTransactionReceipt rpc hash \<in> set (snd (signed_run fn price handler w c a t))"
      and "waitForTransactionReceipt w rpc hash = Inr r"
  shows "fst (signed_run fn price handler w c a t) = Inr (fst (interpretReceipt w hash r))"
    and "\<exists>rq rq'. snd (signed_run fn price handler w c a t) =
           [Fetch rq, WriteContract rq', WaitForTransactionReceipt rpc hash]
             @ snd (interpretReceipt w hash r)"
  using assms
  by (auto simp: signed_run_def post_try_unfold interpretReceipt_no_wait
           split: sum.splits signature_result.splits option.splits prod.splits)

lemma signed_run_wait_throws:
  assumes "WaitForTransactionReceipt rpc hash \<in> set (snd (signed_run fn price handler w c a t))"
      and "waitForTransactionReceipt w rpc hash = Inl err"
  shows "fst (signed_run fn price handler w c a t) = Inr (handler err)"
  using assms
  by (auto simp: signed_run_def post_try_unfold interpretReceipt_no_wait
           split: sum.splits signature_result.splits option.splits prod.splits)

lemma signed_run_api_failure:
  assumes "fetch w (sign_request c t a) = Inr resp" and "\<not> ok resp"
  shows "signed_run fn price handler w c a t =
           (case json resp of
              Inl err \<Rightarrow> (Inl err, [Fetch (sign_request c t a)])
            | Inr d \<Rightarrow>
                (Inr (failure (or_else (data_error d) (lit ''Failed to get signature from API''))),
                 [Fetch (sign_request c t a)]))"
  using assms
  by (simp add: signed_run_def getSignature_result split: sum.splits)

text \<open>A valid text with a loadable configuration and a derivable key runs as \<open>signed_run\<close>.\<close>

lemma post_with_valid:
  assumes "text \<noteq> []" and "0 < length (trim text)" and "length (trim text) \<le> MAX_MESSAGE_LENGTH"
      and "loadConfig (process_env w) = Inr c"
      and "privateKeyToAccount w (privateKey c) = Inr a"
  shows "post_with fn price handler w text = signed_run fn price handler w c a (trim text)"
proof -
  obtain g calls where g: "getSignature w c (trim text) a = (g, calls)"
    by (cases "getSignature w c (trim text) a")
  with getSignature_calls [of w c "trim text" a]
  have calls: "calls = [Fetch (sign_request c (trim text) a)]" by simp
  show ?thesis
    using assms
    by (simp add: post_with_def signed_run_def Let_def g calls
             split: sum.splits signature_result.splits prod.splits)
qed

lemma signed_run_starts_with_fetch:
  "\<exists>rest. snd (signed_run fn price handler w c a t) = Fetch (sign_request c t a) # rest"
  by (auto simp: signed_run_def split: sum.splits signature_result.splits prod.splits)

lemma post_with_invalid:
  assumes "length (trim text) = 0 \<or> MAX_MESSAGE_LENGTH < length (trim text)"
  shows "post_with fn price handler w text =
           (Inr (failure (if text = [] then lit ''Text must be a non-empty string''
                          else if length (trim text) = 0 then lit ''Text cannot be empty''
                          else text_too_long (length (trim text)))), [])"
  using assms by (auto simp: post_with_def Let_def)

lemma post_with_fetch:
  assumes "Fetch rq \<in> set (snd (post_with fn price handler w text))"
  shows "body_text rq = trim text"
proof -
  from assms have "snd (post_with fn price handler w text) \<noteq> []" by auto
  from post_with_run [OF this] obtain c a where
    "post_with fn price handler w text = signed_run fn price handler w c a (trim text)"
    by blast
  with assms signed_run_fetch [of rq fn price handler w c a "trim text"]
  show ?thesis by (simp add: sign_request_def)
qed

lemma post_with_write:
  assumes "WriteContract rq \<in> set (snd (post_with fn price handler w text))"
  shows "functionName rq = fn \<and> tx_value rq = price \<and> abi rq = PUBLIC_TERMINAL_ABI
         \<and> address rq = CONTRACT_ADDRESS
         \<and> (\<exists>c a fb s. loadConfig (process_env w) = Inr c \<and> args rq = (fb, username c, trim text, s))"
proof -
  from assms have "snd (post_with fn price handler w text) \<noteq> []" by auto
  from post_with_run [OF this] obtain c a where
    c: "loadConfig (process_env w) = Inr c" and
    "post_with fn price handler w text = signed_run fn price handler w c a (trim text)"
    by blast
  with assms signed_run_write [of rq fn price handler w c a "trim text"]
  obtain fb s where "rq = write_request fn price c fb (trim text) a s" by auto
  with c show ?thesis by (auto simp: write_request_def)
qed

lemma post_with_wait_ok:
  assumes "WaitForTransactionReceipt rpc hash \<in> set (snd (post_with fn price handler w text))"
      and "waitForTransactionReceipt w rpc hash = Inr r"
  shows "fst (post_with fn price handler w text) = Inr (fst (interpretReceipt w hash r))"
    and "\<exists>rq rq'. snd (post_with fn price handler w text) =
           [Fetch rq, WriteContract rq', WaitForTransactionReceipt rpc hash]
             @ snd (interpretReceipt w hash r)"
proof -
  from assms have "snd (post_with fn price handler w text) \<noteq> []" by auto
  from post_with_run [OF this] obtain c a where
    eq: "post_with fn price handler w text = signed_run fn price handler w c a (trim text)"
    by blast
  from assms(1) have m: "WaitForTransactionReceipt rpc hash
      \<in> set (snd (signed_run fn price handler w c a (trim text)))"
    by (simp add: eq)
  show "fst (post_with fn price handler w text) = Inr (fst (interpretReceipt w hash r))"
    unfolding eq by (rule signed_run_wait_ok(1) [OF m assms(2)])
  show "\<exists>rq rq'. snd (post_with fn price handler w text) =
           [Fetch rq, WriteContract rq', WaitForTransactionReceipt rpc hash]
             @ snd (interpretReceipt w hash r)"
    unfolding eq by (rule signed_run_wait_ok(2) [OF m assms(2)])
qed

lemma post_with_wait_throws:
  assumes "WaitForTransactionReceipt rpc hash \<in> set (snd (post_with fn price handler w text))"
      and "waitForTransactionReceipt w rpc hash = Inl err"
  shows "fst (post_with fn price handler w text) = Inr (handler err)"
proof -
  from assms have "snd (post_with fn price handler w text) \<noteq> []" by auto
  from post_with_run [OF this] obtain c a where
    eq: "post_with fn price handler w text = signed_run fn price handler w c a (trim text)"
    by blast
  with assms show ?thesis
    by (simp add: signed_run_wait_throws)
qed

lemma post_with_api_failure:
  assumes "Fetch rq \<in> set (snd (post_with fn price handler w text))"
      and "fetch w rq = Inr resp" and "\<not> ok resp"
  shows "post_with fn price handler w text =
           (case json resp of
              Inl err \<Rightarrow> (Inl err, [Fetch rq])
            | Inr d \<Rightarrow>
                (Inr (failure (or_else (data_error d) (lit ''Failed to get signature from API''))),
                 [Fetch rq]))"
proof -
  from assms have "snd (post_with fn price handler w text) \<noteq> []" by auto
  from post_with_run [OF this] obtain c a where
    eq: "post_with fn price handler w text = signed_run fn price handler w c a (trim text)"
    by blast
  with assms(1) have rq: "rq = sign_request c (trim text) a"
    by (simp add: signed_run_fetch)
  show ?thesis
    unfolding eq rq
    by (rule signed_run_api_failure) (use assms rq in simp_all)
qed

section \<open>Runs in the example world\<close>

lemma example_loadConfig:
  "loadConfig (process_env (example_world response written confirmed decode)) = Inr example_config"
proof -
  have p: "parseInt10 (lit ''12345'') = Num 12345" by (simp add: eval_parseInt)
  have s: "startsWith example_privateKey (lit ''0x'')"
    by (simp add: startsWith_def example_privateKey_def lit_def)
  have n: "lit ''myagent'' \<noteq> []" "lit ''12345'' \<noteq> []" "example_privateKey \<noteq> []"
    by (simp_all add: lit_def example_privateKey_def)
  show ?thesis
    by (simp add: loadConfig_def example_world_def env3_def nonempty_def truthy_def p s n
          isNaN_def le_zero_def or_else_def example_config_def)
qed

lemma trim_hi: "trim (lit ''  hi '') = lit ''hi''"
  by (simp add: trim_def lit_def isWhiteSpace_def)

lemma example_run:
  "post_with fn price handler (example_world response written confirmed decode) (lit ''  hi '') =
     signed_run fn price handler (example_world response written confirmed decode)
       example_config (lit ''0xA11CE'') (lit ''hi'')"
proof -
  have n: "lit ''  hi '' \<noteq> []" "0 < length (lit ''hi'')" "length (lit ''hi'') \<le> MAX_MESSAGE_LENGTH"
    by (simp_all add: lit_def MAX_MESSAGE_LENGTH_def)
  have a: "privateKeyToAccount (example_world response written confirmed decode)
             (privateKey example_config) = Inr (lit ''0xA11CE'')"
    by (simp add: example_world_def)
  from post_with_valid [of "lit ''  hi ''", unfolded trim_hi, OF n example_loadConfig a]
  show ?thesis .
qed

lemma example_signed_run:
  "post_with fn price handler (example_world signed_response (Inr example_hash) confirmed decode)
       (lit ''  hi '') =
     (case confirmed of
        Inl err \<Rightarrow>
          (Inr (handler err),
           [Fetch example_sign_request, WriteContract (example_write_request fn price),
            WaitForTransactionReceipt example_rpc example_hash])
      | Inr r \<Rightarrow>
          (Inr (fst (interpretReceipt
                  (example_world signed_response (Inr example_hash) confirmed decode) example_hash r)),
           [Fetch example_sign_request, WriteContract (example_write_request fn price),
            WaitForTransactionReceipt example_rpc example_hash]
             @ snd (interpretReceipt
                  (example_world signed_response (Inr example_hash) confirmed decode) example_hash r)))"
proof -
  define W where "W = example_world signed_response (Inr example_hash) confirmed decode"
  have b: "BigInt (fid example_config) = Some 12345"
    by (simp add: BigInt_def example_config_def)
  have f: "fetch W rq = Inr \<lparr> ok = True,
      json = Inr \<lparr> data_error = None, data_signature = Some (lit ''0xabc'') \<rparr> \<rparr>" for rq
    by (simp add: W_def example_world_def signed_response_def)
  have g: "fst (getSignature W example_config (lit ''hi'') (lit ''0xA11CE''))
      = Inr (Signature (Some (lit ''0xabc'')))"
    by (simp add: getSignature_result f)
  have wc: "writeContract W rq = Inr example_hash" for rq
    by (simp add: W_def example_world_def)
  have wt: "waitForTransactionReceipt W rpc h = confirmed" for rpc h
    by (simp add: W_def example_world_def)
  have "post_with fn price handler W (lit ''  hi '') =
     (case confirmed of
        Inl err \<Rightarrow>
          (Inr (handler err),
           [Fetch example_sign_request, WriteContract (example_write_request fn price),
            WaitForTransactionReceipt example_rpc example_hash])
      | Inr r \<Rightarrow>
          (Inr (fst (interpretReceipt W example_hash r)),
           [Fetch example_sign_request, WriteContract (example_write_request fn price),
            WaitForTransactionReceipt example_rpc example_hash]
             @ snd (interpretReceipt W example_hash r)))"
    unfolding W_def example_run
    unfolding W_def [symmetric]
    by (simp add: signed_run_def g post_try_unfold b wc wt
          example_sign_request_def example_write_request_def example_rpc_def
          split: sum.splits)
  then show ?thesis unfolding W_def .
qed

section \<open>Validation before any call\<close>

text \<open>
  Claim C2. A text whose trimmed length is 0 or greater than 120 makes \<open>postMessage\<close> and
  \<open>postPinMessage\<close> return a validation failure, and the run makes no call at all: no
  request to the signing API, nothing sent to the chain. The failure says that the text
  must be a non-empty string, that it cannot be empty, or that it is too long.
\<close>

theorem invalid_text_makes_no_call:
  assumes "f = postMessage \<or> f = postPinMessage"
      and "length (trim text) = 0 \<or> 120 < length (trim text)"
  shows "f w text =
           (Inr (failure (if text = [] then lit ''Text must be a non-empty string''
                          else if length (trim text) = 0 then lit ''Text cannot be empty''
                          else text_too_long (length (trim text)))), [])"
  using assms post_with_invalid [of "text" _ _ _ w]
  by (auto simp: postMessage_post postPinMessage_post MAX_MESSAGE_LENGTH_def)

text \<open>Three blanks for \<open>postMessage\<close>, 121 letters between blanks for \<open>postPinMessage\<close>.\<close>

theorem invalid_text_makes_no_call_witness:
  "postMessage (example_world signed_response (Inr example_hash) (Inl (Error [])) example_decode)
       (lit ''   '')
     = (Inr (failure (lit ''Text cannot be empty'')), [])
   \<and> postPinMessage (example_world signed_response (Inr example_hash) (Inl (Error [])) example_decode)
       (0x20 # replicate 121 0x61 @ [0x20])
     = (Inr (failure (lit ''Text too long: 121 characters (max 120)'')), [])"
proof -
  have t1: "trim (lit ''   '') = []" "lit ''   '' \<noteq> []"
    by (simp_all add: trim_def lit_def isWhiteSpace_def)
  have t2: "trim (0x20 # replicate 121 0x61 @ [0x20]) = replicate 121 0x61"
    by (simp add: trim_def isWhiteSpace_def)
  have m: "text_too_long 121 = lit ''Text too long: 121 characters (max 120)''"
    by (simp add: text_too_long_def decimal.simps MAX_MESSAGE_LENGTH_def lit_def)
  have "postMessage (example_world signed_response (Inr example_hash) (Inl (Error [])) example_decode)
       (lit ''   '')
     = (Inr (failure (lit ''Text cannot be empty'')), [])"
    using invalid_text_makes_no_call [of postMessage "lit ''   ''"]
    by (simp add: t1)
  moreover have "postPinMessage (example_world signed_response (Inr example_hash) (Inl (Error [])) example_decode)
       (0x20 # replicate 121 0x61 @ [0x20])
     = (Inr (failure (lit ''Text too long: 121 characters (max 120)'')), [])"
    using invalid_text_makes_no_call [of postPinMessage "0x20 # replicate 121 0x61 @ [0x20]"]
    by (simp add: t2 m)
  ultimately show ?thesis by (intro conjI)
qed

section \<open>What reaches the signing API and the chain\<close>

lemma post_with_valid_starts_with_fetch:
  assumes "0 < length (trim text)" and "length (trim text) \<le> MAX_MESSAGE_LENGTH"
      and "loadConfig (process_env w) = Inr c"
      and "privateKeyToAccount w (privateKey c) = Inr a"
  shows "\<exists>rest. snd (post_with fn price handler w text) = Fetch (sign_request c (trim text) a) # rest"
proof -
  from assms(1) have "text \<noteq> []" by (auto simp: trim_def)
  from post_with_valid [OF this assms]
  show ?thesis by (simp add: signed_run_starts_with_fetch)
qed

text \<open>
  Claim C10. In a run of \<open>postMessage\<close> or \<open>postPinMessage\<close>, the text of every request
  to the signing API and the text argument of every contract call is the trimmed text,
  not the text as given. And when the trimmed text is valid, the configuration loads and
  the key derives an address, the request with the trimmed text is indeed sent.
\<close>

theorem trimmed_text_is_what_is_sent:
  assumes "f = postMessage \<or> f = postPinMessage"
  shows "(Fetch rq \<in> set (snd (f w text)) \<longrightarrow> body_text rq = trim text)
       \<and> (WriteContract rq' \<in> set (snd (f w text)) \<longrightarrow> fst (snd (snd (args rq'))) = trim text)
       \<and> (0 < length (trim text) \<and> length (trim text) \<le> 120
            \<and> loadConfig (process_env w) = Inr c \<and> privateKeyToAccount w (privateKey c) = Inr a
           \<longrightarrow> (\<exists>rest. snd (f w text) = Fetch (sign_request c (trim text) a) # rest))"
proof -
  from assms obtain fn price handler where f: "f = post_with fn price handler"
    by (auto simp: postMessage_post postPinMessage_post)
  have "Fetch rq \<in> set (snd (f w text)) \<longrightarrow> body_text rq = trim text"
    unfolding f using post_with_fetch by blast
  moreover have "WriteContract rq' \<in> set (snd (f w text))
      \<longrightarrow> fst (snd (snd (args rq'))) = trim text"
    unfolding f using post_with_write [of rq' fn price handler w "text"] by auto
  moreover have "0 < length (trim text) \<and> length (trim text) \<le> 120
            \<and> loadConfig (process_env w) = Inr c \<and> privateKeyToAccount w (privateKey c) = Inr a
           \<longrightarrow> (\<exists>rest. snd (f w text) = Fetch (sign_request c (trim text) a) # rest)"
    unfolding f using post_with_valid_starts_with_fetch [of "text" w c a fn price handler]
    by (simp add: MAX_MESSAGE_LENGTH_def)
  ultimately show ?thesis by (intro conjI)
qed

text \<open>The text \<open>hi\<close> between blanks, signed and submitted.\<close>

theorem trimmed_text_is_what_is_sent_witness:
  "Fetch example_sign_request
     \<in> set (snd (postMessage
          (example_world signed_response (Inr example_hash) (Inl (Error [])) example_decode)
          (lit ''  hi '')))
   \<and> body_text example_sign_request = lit ''hi''
   \<and> WriteContract (example_write_request ''mint'' PRICE_WEI)
     \<in> set (snd (postMessage
          (example_world signed_response (Inr example_hash) (Inl (Error [])) example_decode)
          (lit ''  hi '')))
   \<and> fst (snd (snd (args (example_write_request ''mint'' PRICE_WEI)))) = lit ''hi''"
proof -
  define W where
    "W = example_world signed_response (Inr example_hash) (Inl (Error [])) example_decode"
  have run: "snd (postMessage W (lit ''  hi '')) =
      [Fetch example_sign_request, WriteContract (example_write_request ''mint'' PRICE_WEI),
       WaitForTransactionReceipt example_rpc example_hash]"
    by (simp add: W_def postMessage_post example_signed_run)
  have "body_text example_sign_request = lit ''hi''
      \<and> fst (snd (snd (args (example_write_request ''mint'' PRICE_WEI)))) = lit ''hi''"
    using trimmed_text_is_what_is_sent
      [of postMessage example_sign_request W "lit ''  hi ''"
          "example_write_request ''mint'' PRICE_WEI"]
    by (simp add: run trim_hi)
  with run show ?thesis by (simp add: W_def)
qed

lemma signed_run_write_full:
  "WriteContract rq \<in> set (snd (signed_run fn price handler w c a t)) \<Longrightarrow>
   \<exists>fb s. rq = write_request fn price c fb t a s \<and> BigInt (fid c) = Some fb
         \<and> fst (getSignature w c t a) = Inr (Signature s)"
  by (auto simp: signed_run_def post_try_unfold interpretReceipt_no_write
           split: sum.splits signature_result.splits option.splits prod.splits)

lemma post_with_write_full:
  assumes "WriteContract rq \<in> set (snd (post_with fn price handler w text))"
  shows "\<exists>c a fb s. loadConfig (process_env w) = Inr c
           \<and> privateKeyToAccount w (privateKey c) = Inr a
           \<and> BigInt (fid c) = Some fb
           \<and> fst (getSignature w c (trim text) a) = Inr (Signature s)
           \<and> rq = write_request fn price c fb (trim text) a s"
proof -
  from assms have "snd (post_with fn price handler w text) \<noteq> []" by auto
  from post_with_run [OF this] obtain c a where
    c: "loadConfig (process_env w) = Inr c" "privateKeyToAccount w (privateKey c) = Inr a" and
    eq: "post_with fn price handler w text = signed_run fn price handler w c a (trim text)"
    by blast
  from assms have "WriteContract rq \<in> set (snd (signed_run fn price handler w c a (trim text)))"
    by (simp add: eq)
  from signed_run_write_full [OF this] c show ?thesis by blast
qed

lemma abi_functions_shipped:
  "abi_functions PUBLIC_TERMINAL_ABI = [''mint'', ''mintSticky'', ''getRecentMessages'', ''getMessageCount'']"
  by (simp add: abi_functions_def PUBLIC_TERMINAL_ABI_def List.map_filter_simps)

section \<open>Payment and entry point\<close>

text \<open>
  Claim C6. Every contract call that \<open>postPinMessage\<close> submits carries ten times the base
  price, and every one that \<open>postMessage\<close> submits carries the base price, whatever the
  text, the configuration and the answers of the collaborators are.
\<close>

theorem attached_payment:
  "(WriteContract rq \<in> set (snd (postMessage w text)) \<longrightarrow> tx_value rq = PRICE_WEI)
   \<and> (WriteContract rq \<in> set (snd (postPinMessage w text)) \<longrightarrow> tx_value rq = 10 * PRICE_WEI)"
  using post_with_write [of rq _ _ _ w "text"]
  by (auto simp: postMessage_post postPinMessage_post PIN_PRICE_WEI_def PRICE_WEI_def)

text \<open>Both functions on the same world and text: the call is made, and with these payments.\<close>

theorem attached_payment_witness:
  "WriteContract (example_write_request ''mint'' PRICE_WEI)
     \<in> set (snd (postMessage
          (example_world signed_response (Inr example_hash) (Inl (Error [])) example_decode)
          (lit ''  hi '')))
   \<and> tx_value (example_write_request ''mint'' PRICE_WEI) = 500000000000000
   \<and> WriteContract (example_write_request ''mintPin'' PIN_PRICE_WEI)
     \<in> set (snd (postPinMessage
          (example_world signed_response (Inr example_hash) (Inl (Error [])) example_decode)
          (lit ''  hi '')))
   \<and> tx_value (example_write_request ''mintPin'' PIN_PRICE_WEI) = 5000000000000000"
proof -
  define W where
    "W = example_world signed_response (Inr example_hash) (Inl (Error [])) example_decode"
  have run: "snd (postMessage W (lit ''  hi '')) =
      [Fetch example_sign_request, WriteContract (example_write_request ''mint'' PRICE_WEI),
       WaitForTransactionReceipt example_rpc example_hash]"
    by (simp add: W_def postMessage_post example_signed_run)
  have run': "snd (postPinMessage W (lit ''  hi '')) =
      [Fetch example_sign_request, WriteContract (example_write_request ''mintPin'' PIN_PRICE_WEI),
       WaitForTransactionReceipt example_rpc example_hash]"
    by (simp add: W_def postPinMessage_post example_signed_run)
  have "tx_value (example_write_request ''mint'' PRICE_WEI) = 500000000000000"
    using attached_payment [of "example_write_request ''mint'' PRICE_WEI" W "lit ''  hi ''"]
    by (simp add: run PRICE_WEI_def)
  moreover have "tx_value (example_write_request ''mintPin'' PIN_PRICE_WEI) = 5000000000000000"
    using attached_payment [of "example_write_request ''mintPin'' PIN_PRICE_WEI" W "lit ''  hi ''"]
    by (simp add: run' PRICE_WEI_def)
  ultimately show ?thesis using run run' by (simp add: W_def)
qed

text \<open>
  Claim C8. \<open>postPinMessage\<close> names another contract function than the \<open>mint\<close> of
  \<open>postMessage\<close> and passes the same arguments (fid, username, trimmed text, signature).
  The claim's last part fails: the function it names, \<open>mintPin\<close>, is not among the
  functions of the ABI it passes along, \<open>PUBLIC_TERMINAL_ABI\<close>, which declares
  \<open>mintSticky\<close>; the \<open>mint\<close> of \<open>postMessage\<close> is among them.
\<close>

theorem pinned_entry_point:
  "(WriteContract rq \<in> set (snd (postPinMessage w text)) \<longrightarrow>
      functionName rq = ''mintPin'' \<and> functionName rq \<noteq> ''mint''
      \<and> abi rq = PUBLIC_TERMINAL_ABI \<and> functionName rq \<notin> set (abi_functions (abi rq)))
   \<and> (WriteContract rq' \<in> set (snd (postMessage w text)) \<longrightarrow>
      functionName rq' = ''mint'' \<and> functionName rq' \<in> set (abi_functions (abi rq')))
   \<and> (WriteContract rq \<in> set (snd (postPinMessage w text))
      \<and> WriteContract rq' \<in> set (snd (postMessage w text)) \<longrightarrow> args rq = args rq')"
proof -
  have "WriteContract rq \<in> set (snd (postPinMessage w text)) \<longrightarrow>
      functionName rq = ''mintPin'' \<and> functionName rq \<noteq> ''mint''
      \<and> abi rq = PUBLIC_TERMINAL_ABI \<and> functionName rq \<notin> set (abi_functions (abi rq))"
    using post_with_write [of rq _ _ _ w "text"]
    by (auto simp: postPinMessage_post abi_functions_shipped)
  moreover have "WriteContract rq' \<in> set (snd (postMessage w text)) \<longrightarrow>
      functionName rq' = ''mint'' \<and> functionName rq' \<in> set (abi_functions (abi rq'))"
    using post_with_write [of rq' _ _ _ w "text"]
    by (auto simp: postMessage_post abi_functions_shipped)
  moreover have "WriteContract rq \<in> set (snd (postPinMessage w text))
      \<and> WriteContract rq' \<in> set (snd (postMessage w text)) \<longrightarrow> args rq = args rq'"
  proof
    assume both: "WriteContract rq \<in> set (snd (postPinMessage w text))
      \<and> WriteContract rq' \<in> set (snd (postMessage w text))"
    from both post_with_write_full [of rq _ _ _ w "text"] obtain c a fb s where
      p: "loadConfig (process_env w) = Inr c" "privateKeyToAccount w (privateKey c) = Inr a"
         "BigInt (fid c) = Some fb" "fst (getSignature w c (trim text) a) = Inr (Signature s)"
         "rq = write_request ''mintPin'' PIN_PRICE_WEI c fb (trim text) a s"
      unfolding postPinMessage_post by blast
    from both post_with_write_full [of rq' _ _ _ w "text"] obtain c' a' fb' s' where
      n: "loadConfig (process_env w) = Inr c'" "privateKeyToAccount w (privateKey c') = Inr a'"
         "BigInt (fid c') = Some fb'" "fst (getSignature w c' (trim text) a') = Inr (Signature s')"
         "rq' = write_request ''mint'' PRICE_WEI c' fb' (trim text) a' s'"
      unfolding postMessage_post by blast
    from p(1) n(1) have c: "c' = c" by simp
    with p(2) n(2) have a: "a' = a" by simp
    from p(3) n(3) c have fb: "fb' = fb" by simp
    from p(4) n(4) c a have "s' = s" by simp
    with p(5) n(5) c a fb show "args rq = args rq'" by (simp add: write_request_def)
  qed
  ultimately show ?thesis by (intro conjI)
qed

theorem pinned_entry_point_witness:
  "WriteContract (example_write_request ''mintPin'' PIN_PRICE_WEI)
     \<in> set (snd (postPinMessage
          (example_world signed_response (Inr example_hash) (Inl (Error [])) example_decode)
          (lit ''  hi '')))
   \<and> functionName (example_write_request ''mintPin'' PIN_PRICE_WEI) = ''mintPin''
   \<and> ''mintPin'' \<notin> set (abi_functions PUBLIC_TERMINAL_ABI)
   \<and> abi_functions PUBLIC_TERMINAL_ABI
       = [''mint'', ''mintSticky'', ''getRecentMessages'', ''getMessageCount'']"
proof -
  define W where
    "W = example_world signed_response (Inr example_hash) (Inl (Error [])) example_decode"
  have run': "snd (postPinMessage W (lit ''  hi '')) =
      [Fetch example_sign_request, WriteContract (example_write_request ''mintPin'' PIN_PRICE_WEI),
       WaitForTransactionReceipt example_rpc example_hash]"
    by (simp add: W_def postPinMessage_post example_signed_run)
  have "functionName (example_write_request ''mintPin'' PIN_PRICE_WEI) = ''mintPin''
      \<and> ''mintPin'' \<notin> set (abi_functions PUBLIC_TERMINAL_ABI)"
    using pinned_entry_point [of "example_write_request ''mintPin'' PIN_PRICE_WEI" W "lit ''  hi ''"
        "example_write_request ''mint'' PRICE_WEI"]
    by (auto simp: run')
  then show ?thesis using run' by (simp add: W_def abi_functions_shipped)
qed

section \<open>Numbers that hold an identifier exactly\<close>

lemma bit_length_le: "n < 2 ^ k \<Longrightarrow> bit_length n \<le> k"
proof (induction k arbitrary: n)
  case 0
  then show ?case by (simp add: bit_length.simps)
next
  case (Suc k)
  then have "n div 2 < 2 ^ k" by auto
  from Suc.IH [OF this] show ?case by (subst bit_length.simps) simp
qed

lemma nearest_double_small: "n < 2 ^ 53 \<Longrightarrow> nearest_double n = Some n"
proof -
  assume n: "n < 2 ^ 53"
  from bit_length_le [OF n] have e: "bit_length n - 53 = 0" by simp
  have "(2::nat) ^ 53 < 2 ^ 1024" by simp
  with n have "\<not> 2 ^ 1024 \<le> n" by linarith
  then show ?thesis by (simp add: nearest_double_def e Let_def)
qed

lemma nearest_double_2_53: "nearest_double (2 ^ 53) = Some (2 ^ 53)"
  by (simp add: nearest_double_def bit_length.simps Let_def)

lemma Number_of_bigint_exact:
  assumes "0 \<le> t" and "t \<le> 2 ^ 53"
  shows "Number_of_bigint t = Num t"
proof (cases "t = 2 ^ 53")
  case True
  have "nat \<bar>2 ^ 53 :: int\<bar> = 2 ^ 53" by simp
  then show ?thesis
    unfolding True Number_of_bigint_def to_number_def
    by (simp only: nearest_double_2_53) simp
next
  case False
  with assms have "nat \<bar>t\<bar> < 2 ^ 53"
    by (simp add: nat_less_iff)
  from nearest_double_small [OF this] assms show ?thesis
    by (simp add: Number_of_bigint_def to_number_def)
qed

lemma Number_of_bigint_above: "Number_of_bigint 9007199254740993 = Num 9007199254740992"
  by (simp add: Number_of_bigint_def to_number_def nearest_double_def bit_length.simps Let_def)

section \<open>Interpreting the receipt\<close>

lemma interpretReceipt_reverted:
  "status r \<noteq> StatusSuccess \<Longrightarrow>
   interpretReceipt w hash r =
     (\<lparr> success = False, tokenId = None, txHash = Some hash,
        error = Some (lit ''Transaction reverted'') \<rparr>, [])"
  by (simp add: interpretReceipt_def)

lemma interpretReceipt_no_mint:
  assumes "status r = StatusSuccess"
      and "\<forall>l\<in>set (logs r). mint_tokenId (decodeEventLog w PUBLIC_TERMINAL_ABI l) = None"
  shows "interpretReceipt w hash r =
     (\<lparr> success = True, tokenId = None, txHash = Some hash, error = None \<rparr>,
      map DecodeEventLog (logs r))"
  using assms by (simp add: interpretReceipt_def scanLogs_none)

lemma interpretReceipt_first_mint:
  assumes "status r = StatusSuccess"
      and "logs r = before @ l # after"
      and "\<forall>x\<in>set before. mint_tokenId (decodeEventLog w PUBLIC_TERMINAL_ABI x) = None"
      and "mint_tokenId (decodeEventLog w PUBLIC_TERMINAL_ABI l) = Some t"
  shows "interpretReceipt w hash r =
     (\<lparr> success = True, tokenId = Some (Number_of_bigint t), txHash = Some hash, error = None \<rparr>,
      map DecodeEventLog (before @ [l]))"
  using assms by (simp add: interpretReceipt_def scanLogs_first)

lemma not_mint_no_tokenId: "\<not> decodes_as_mint res \<Longrightarrow> mint_tokenId res = None"
  by (auto simp: decodes_as_mint_def mint_tokenId_def split: sum.splits)

text \<open>
  Claim C4. When the receipt awaited by \<open>postMessage\<close> or \<open>postPinMessage\<close> arrives with
  the status reverted, the result is the failure \<open>Transaction reverted\<close> with the hash
  of the transaction, and the run decodes no log.
\<close>

theorem reverted_receipt_fails_with_hash:
  assumes "f = postMessage \<or> f = postPinMessage"
      and "WaitForTransactionReceipt rpc hash \<in> set (snd (f w text))"
      and "waitForTransactionReceipt w rpc hash = Inr r"
      and "status r = StatusReverted"
  shows "fst (f w text) =
           Inr \<lparr> success = False, tokenId = None, txHash = Some hash,
                 error = Some (lit ''Transaction reverted'') \<rparr>
         \<and> (\<forall>l. DecodeEventLog l \<notin> set (snd (f w text)))"
proof -
  from assms(1) obtain fn price handler where f: "f = post_with fn price handler"
    by (auto simp: postMessage_post postPinMessage_post)
  from assms(4) have i: "interpretReceipt w hash r =
     (\<lparr> success = False, tokenId = None, txHash = Some hash,
        error = Some (lit ''Transaction reverted'') \<rparr>, [])"
    by (simp add: interpretReceipt_reverted)
  from post_with_wait_ok [OF assms(2) [unfolded f] assms(3)] i
  show ?thesis unfolding f by auto
qed

theorem reverted_receipt_fails_with_hash_witness:
  "WaitForTransactionReceipt example_rpc example_hash
     \<in> set (snd (postMessage
          (example_world signed_response (Inr example_hash)
             (Inr \<lparr> status = StatusReverted, logs = [minted_log ''42''] \<rparr>) example_decode)
          (lit ''  hi '')))
   \<and> postMessage
        (example_world signed_response (Inr example_hash)
           (Inr \<lparr> status = StatusReverted, logs = [minted_log ''42''] \<rparr>) example_decode)
        (lit ''  hi '')
     = (Inr \<lparr> success = False, tokenId = None, txHash = Some example_hash,
               error = Some (lit ''Transaction reverted'') \<rparr>,
        [Fetch example_sign_request, WriteContract (example_write_request ''mint'' PRICE_WEI),
         WaitForTransactionReceipt example_rpc example_hash])"
proof -
  define r where "r = \<lparr> status = StatusReverted, logs = [minted_log ''42''] \<rparr>"
  define W where "W = example_world signed_response (Inr example_hash) (Inr r) example_decode"
  have run: "postMessage W (lit ''  hi '') =
      (Inr (fst (interpretReceipt W example_hash r)),
       [Fetch example_sign_request, WriteContract (example_write_request ''mint'' PRICE_WEI),
        WaitForTransactionReceipt example_rpc example_hash]
         @ snd (interpretReceipt W example_hash r))"
    by (simp add: W_def postMessage_post example_signed_run)
  have m: "WaitForTransactionReceipt example_rpc example_hash
      \<in> set (snd (postMessage W (lit ''  hi '')))"
    by (simp add: run)
  have wt: "waitForTransactionReceipt W example_rpc example_hash = Inr r"
    by (simp add: W_def example_world_def)
  have st: "status r = StatusReverted" by (simp add: r_def)
  from reverted_receipt_fails_with_hash [OF disjI1 [OF refl] m wt st]
  have res: "fst (postMessage W (lit ''  hi '')) =
           Inr \<lparr> success = False, tokenId = None, txHash = Some example_hash,
                 error = Some (lit ''Transaction reverted'') \<rparr>"
    and nodec: "\<forall>l. DecodeEventLog l \<notin> set (snd (postMessage W (lit ''  hi '')))"
    by blast+
  have "snd (interpretReceipt W example_hash r) = []"
    by (simp add: interpretReceipt_def r_def)
  with run res have "postMessage W (lit ''  hi '')
     = (Inr \<lparr> success = False, tokenId = None, txHash = Some example_hash,
               error = Some (lit ''Transaction reverted'') \<rparr>,
        [Fetch example_sign_request, WriteContract (example_write_request ''mint'' PRICE_WEI),
         WaitForTransactionReceipt example_rpc example_hash])"
    by simp
  with m show ?thesis unfolding W_def r_def by simp
qed

lemma example_decode_foreign:
  "example_decode foreign_log = Inl (Error (lit ''event signature not found''))"
  by (simp add: example_decode_def foreign_log_def)

lemma example_decode_sticky:
  "example_decode (sticky_log ''7'') =
     Inr \<lparr> eventName = ''StickySet'', event_args = Some \<lparr> args_tokenId = Some 7 \<rparr> \<rparr>"
  by (simp add: example_decode_def sticky_log_def lit_def digits_value_def)

lemma example_decode_minted_42:
  "example_decode (minted_log ''42'') =
     Inr \<lparr> eventName = ''MessageMinted'', event_args = Some \<lparr> args_tokenId = Some 42 \<rparr> \<rparr>"
  by (simp add: example_decode_def minted_log_def lit_def digits_value_def)

lemma example_decode_minted_big:
  "example_decode (minted_log ''9007199254740993'') =
     Inr \<lparr> eventName = ''MessageMinted'',
           event_args = Some \<lparr> args_tokenId = Some 9007199254740993 \<rparr> \<rparr>"
  by (simp add: example_decode_def minted_log_def lit_def digits_value_def)

lemma example_decodeEventLog:
  "decodeEventLog (example_world response written confirmed decode) items = decode"
  by (simp add: example_world_def)

lemma example_wait:
  "waitForTransactionReceipt (example_world response written confirmed decode) rpc h = confirmed"
  by (simp add: example_world_def)

lemma example_success_run:
  "postMessage (example_world signed_response (Inr example_hash) (Inr r) decode) (lit ''  hi '') =
      (Inr (fst (interpretReceipt
              (example_world signed_response (Inr example_hash) (Inr r) decode) example_hash r)),
       [Fetch example_sign_request, WriteContract (example_write_request ''mint'' PRICE_WEI),
        WaitForTransactionReceipt example_rpc example_hash]
         @ snd (interpretReceipt
              (example_world signed_response (Inr example_hash) (Inr r) decode) example_hash r))"
  by (simp add: postMessage_post example_signed_run)

text \<open>
  Claim C3. When the receipt awaited by \<open>postMessage\<close> or \<open>postPinMessage\<close> arrives with
  the status success and none of its logs decodes as a \<open>MessageMinted\<close> event, the result
  is a success with the hash of the transaction and without a \<open>tokenId\<close>.
\<close>

theorem success_without_mint_event:
  assumes "f = postMessage \<or> f = postPinMessage"
      and "WaitForTransactionReceipt rpc hash \<in> set (snd (f w text))"
      and "waitForTransactionReceipt w rpc hash = Inr r"
      and "status r = StatusSuccess"
      and "\<forall>l\<in>set (logs r). \<not> decodes_as_mint (decodeEventLog w PUBLIC_TERMINAL_ABI l)"
  shows "fst (f w text) =
           Inr \<lparr> success = True, tokenId = None, txHash = Some hash, error = None \<rparr>"
proof -
  from assms(1) obtain fn price handler where f: "f = post_with fn price handler"
    by (auto simp: postMessage_post postPinMessage_post)
  from assms(5) have "\<forall>l\<in>set (logs r). mint_tokenId (decodeEventLog w PUBLIC_TERMINAL_ABI l) = None"
    by (simp add: not_mint_no_tokenId)
  from interpretReceipt_no_mint [OF assms(4) this]
    post_with_wait_ok(1) [OF assms(2) [unfolded f] assms(3)]
  show ?thesis unfolding f by simp
qed

text \<open>A receipt with a log of another contract and a \<open>StickySet\<close> event.\<close>

theorem success_without_mint_event_witness:
  "fst (postMessage
          (example_world signed_response (Inr example_hash)
             (Inr \<lparr> status = StatusSuccess, logs = [foreign_log, sticky_log ''7''] \<rparr>) example_decode)
          (lit ''  hi ''))
     = Inr \<lparr> success = True, tokenId = None, txHash = Some example_hash, error = None \<rparr>
   \<and> WaitForTransactionReceipt example_rpc example_hash
     \<in> set (snd (postMessage
          (example_world signed_response (Inr example_hash)
             (Inr \<lparr> status = StatusSuccess, logs = [foreign_log, sticky_log ''7''] \<rparr>) example_decode)
          (lit ''  hi '')))"
proof -
  define r where "r = \<lparr> status = StatusSuccess, logs = [foreign_log, sticky_log ''7''] \<rparr>"
  define W where "W = example_world signed_response (Inr example_hash) (Inr r) example_decode"
  have m: "WaitForTransactionReceipt example_rpc example_hash
      \<in> set (snd (postMessage W (lit ''  hi '')))"
    by (simp add: W_def example_success_run)
  have wt: "waitForTransactionReceipt W example_rpc example_hash = Inr r"
    by (simp add: W_def example_wait)
  have st: "status r = StatusSuccess" by (simp add: r_def)
  have nm: "\<forall>l\<in>set (logs r). \<not> decodes_as_mint (decodeEventLog W PUBLIC_TERMINAL_ABI l)"
    by (simp add: r_def W_def example_decodeEventLog example_decode_foreign example_decode_sticky
          decodes_as_mint_def)
  from success_without_mint_event [OF disjI1 [OF refl] m wt st nm] m
  show ?thesis unfolding W_def r_def by simp
qed

text \<open>
  Claim C1, as amended. When the receipt arrives with the status success, the logs are
  decoded in order; a log whose decoding throws, that is another event, or that carries
  no identifier is passed over; at the first \<open>MessageMinted\<close> event with an identifier
  \<open>t\<close> the scan stops, the later logs are not decoded, and the result is a success
  whose \<open>tokenId\<close> is \<open>Number(t)\<close>. That is \<open>t\<close> itself for every \<open>t\<close> from 0 to
  \<open>2 ^ 53\<close>; above, it is the nearest double.
\<close>

theorem tokenId_of_first_mint_event:
  assumes "f = postMessage \<or> f = postPinMessage"
      and "WaitForTransactionReceipt rpc hash \<in> set (snd (f w text))"
      and "waitForTransactionReceipt w rpc hash = Inr r"
      and "status r = StatusSuccess"
      and "logs r = before @ l # after"
      and "\<forall>x\<in>set before. mint_tokenId (decodeEventLog w PUBLIC_TERMINAL_ABI x) = None"
      and "mint_tokenId (decodeEventLog w PUBLIC_TERMINAL_ABI l) = Some t"
  shows "fst (f w text) =
           Inr \<lparr> success = True, tokenId = Some (Number_of_bigint t), txHash = Some hash,
                 error = None \<rparr>
         \<and> (\<exists>rq rq'. snd (f w text) =
               [Fetch rq, WriteContract rq', WaitForTransactionReceipt rpc hash]
                 @ map DecodeEventLog (before @ [l]))
         \<and> (0 \<le> t \<and> t \<le> 2 ^ 53 \<longrightarrow> Number_of_bigint t = Num t)"
proof -
  from assms(1) obtain fn price handler where f: "f = post_with fn price handler"
    by (auto simp: postMessage_post postPinMessage_post)
  note i = interpretReceipt_first_mint [OF assms(4-7), of hash]
  from post_with_wait_ok(1) [OF assms(2) [unfolded f] assms(3)] i
  have "fst (f w text) =
           Inr \<lparr> success = True, tokenId = Some (Number_of_bigint t), txHash = Some hash,
                 error = None \<rparr>"
    unfolding f by simp
  moreover from post_with_wait_ok(2) [OF assms(2) [unfolded f] assms(3)] i
  have "\<exists>rq rq'. snd (f w text) =
               [Fetch rq, WriteContract rq', WaitForTransactionReceipt rpc hash]
                 @ map DecodeEventLog (before @ [l])"
    unfolding f by simp
  moreover have "0 \<le> t \<and> t \<le> 2 ^ 53 \<longrightarrow> Number_of_bigint t = Num t"
    by (simp add: Number_of_bigint_exact)
  ultimately show ?thesis by (intro conjI)
qed

text \<open>
  A receipt with a log of another contract, a \<open>StickySet\<close> event and two \<open>MessageMinted\<close>
  events: the identifier of the first of the two is returned, and the second is not decoded.
\<close>

theorem tokenId_of_first_mint_event_witness:
  "postPinMessage
     (example_world signed_response (Inr example_hash)
        (Inr \<lparr> status = StatusSuccess,
               logs = [foreign_log, sticky_log ''7'', minted_log ''42'', minted_log ''43''] \<rparr>)
        example_decode)
     (lit ''  hi '')
   = (Inr \<lparr> success = True, tokenId = Some (Num 42), txHash = Some example_hash, error = None \<rparr>,
      [Fetch example_sign_request, WriteContract (example_write_request ''mintPin'' PIN_PRICE_WEI),
       WaitForTransactionReceipt example_rpc example_hash,
       DecodeEventLog foreign_log, DecodeEventLog (sticky_log ''7''),
       DecodeEventLog (minted_log ''42'')])"
proof -
  define r where "r = \<lparr> status = StatusSuccess,
    logs = [foreign_log, sticky_log ''7'', minted_log ''42'', minted_log ''43''] \<rparr>"
  define W where "W = example_world signed_response (Inr example_hash) (Inr r) example_decode"
  have run: "snd (postPinMessage W (lit ''  hi '')) =
       [Fetch example_sign_request, WriteContract (example_write_request ''mintPin'' PIN_PRICE_WEI),
        WaitForTransactionReceipt example_rpc example_hash]
         @ snd (interpretReceipt W example_hash r)"
    by (simp add: W_def postPinMessage_post example_signed_run)
  have m: "WaitForTransactionReceipt example_rpc example_hash
      \<in> set (snd (postPinMessage W (lit ''  hi '')))"
    by (simp add: run)
  have wt: "waitForTransactionReceipt W example_rpc example_hash = Inr r"
    by (simp add: W_def example_wait)
  have st: "status r = StatusSuccess" by (simp add: r_def)
  have lg: "logs r = [foreign_log, sticky_log ''7''] @ minted_log ''42'' # [minted_log ''43'']"
    by (simp add: r_def)
  have nm: "\<forall>x\<in>set [foreign_log, sticky_log ''7''].
      mint_tokenId (decodeEventLog W PUBLIC_TERMINAL_ABI x) = None"
    by (simp add: W_def example_decodeEventLog example_decode_foreign example_decode_sticky
          mint_tokenId_def)
  have mt: "mint_tokenId (decodeEventLog W PUBLIC_TERMINAL_ABI (minted_log ''42'')) = Some 42"
    by (simp add: W_def example_decodeEventLog example_decode_minted_42 mint_tokenId_def)
  from tokenId_of_first_mint_event [OF disjI2 [OF refl] m wt st lg nm mt]
  have res: "fst (postPinMessage W (lit ''  hi '')) =
           Inr \<lparr> success = True, tokenId = Some (Number_of_bigint 42), txHash = Some example_hash,
                 error = None \<rparr>"
    and calls: "\<exists>rq rq'. snd (postPinMessage W (lit ''  hi '')) =
               [Fetch rq, WriteContract rq', WaitForTransactionReceipt example_rpc example_hash]
                 @ map DecodeEventLog ([foreign_log, sticky_log ''7''] @ [minted_log ''42''])"
    and exact: "0 \<le> (42::int) \<and> (42::int) \<le> 2 ^ 53 \<longrightarrow> Number_of_bigint 42 = Num 42"
    by blast+
  from exact have n: "Number_of_bigint 42 = Num 42" by simp
  from calls run have "snd (postPinMessage W (lit ''  hi '')) =
       [Fetch example_sign_request, WriteContract (example_write_request ''mintPin'' PIN_PRICE_WEI),
        WaitForTransactionReceipt example_rpc example_hash,
        DecodeEventLog foreign_log, DecodeEventLog (sticky_log ''7''),
        DecodeEventLog (minted_log ''42'')]"
    by auto
  with res n have "postPinMessage W (lit ''  hi '')
   = (Inr \<lparr> success = True, tokenId = Some (Num 42), txHash = Some example_hash, error = None \<rparr>,
      [Fetch example_sign_request, WriteContract (example_write_request ''mintPin'' PIN_PRICE_WEI),
       WaitForTransactionReceipt example_rpc example_hash,
       DecodeEventLog foreign_log, DecodeEventLog (sticky_log ''7''),
       DecodeEventLog (minted_log ''42'')])"
    by (simp add: prod_eq_iff)
  then show ?thesis unfolding W_def r_def .
qed

text \<open>
  The claim as it is stated fails at the identifier \<open>2 ^ 53 + 1\<close>: the receipt's only
  \<open>MessageMinted\<close> event carries 9007199254740993 and the result's \<open>tokenId\<close> is
  9007199254740992.
\<close>

theorem tokenId_not_the_identifier_counterexample:
  "decodeEventLog
     (example_world signed_response (Inr example_hash)
        (Inr \<lparr> status = StatusSuccess, logs = [foreign_log, minted_log ''9007199254740993''] \<rparr>)
        example_decode)
     PUBLIC_TERMINAL_ABI (minted_log ''9007199254740993'')
   = Inr \<lparr> eventName = ''MessageMinted'',
           event_args = Some \<lparr> args_tokenId = Some 9007199254740993 \<rparr> \<rparr>
   \<and> fst (postMessage
          (example_world signed_response (Inr example_hash)
             (Inr \<lparr> status = StatusSuccess,
                    logs = [foreign_log, minted_log ''9007199254740993''] \<rparr>)
             example_decode)
          (lit ''  hi ''))
     = Inr \<lparr> success = True, tokenId = Some (Num 9007199254740992), txHash = Some example_hash,
             error = None \<rparr>"
proof -
  define r where "r = \<lparr> status = StatusSuccess,
    logs = [foreign_log, minted_log ''9007199254740993''] \<rparr>"
  define W where "W = example_world signed_response (Inr example_hash) (Inr r) example_decode"
  have st: "status r = StatusSuccess" by (simp add: r_def)
  have lg: "logs r = [foreign_log] @ minted_log ''9007199254740993'' # []"
    by (simp add: r_def)
  have nm: "\<forall>x\<in>set [foreign_log]. mint_tokenId (decodeEventLog W PUBLIC_TERMINAL_ABI x) = None"
    by (simp add: W_def example_decodeEventLog example_decode_foreign mint_tokenId_def)
  have mt: "mint_tokenId (decodeEventLog W PUBLIC_TERMINAL_ABI (minted_log ''9007199254740993''))
      = Some 9007199254740993"
    by (simp add: W_def example_decodeEventLog example_decode_minted_big mint_tokenId_def)
  from interpretReceipt_first_mint [OF st lg nm mt, of example_hash]
  have "fst (postMessage W (lit ''  hi '')) =
      Inr \<lparr> success = True, tokenId = Some (Number_of_bigint 9007199254740993),
            txHash = Some example_hash, error = None \<rparr>"
    by (simp add: W_def example_success_run)
  then have "fst (postMessage W (lit ''  hi '')) =
      Inr \<lparr> success = True, tokenId = Some (Num 9007199254740992),
            txHash = Some example_hash, error = None \<rparr>"
    by (simp only: Number_of_bigint_above)
  moreover have "decodeEventLog W PUBLIC_TERMINAL_ABI (minted_log ''9007199254740993'')
     = Inr \<lparr> eventName = ''MessageMinted'',
           event_args = Some \<lparr> args_tokenId = Some 9007199254740993 \<rparr> \<rparr>"
    by (simp add: W_def example_decodeEventLog example_decode_minted_big)
  ultimately show ?thesis unfolding W_def r_def by (intro conjI)
qed

section \<open>Exceptions while awaiting the receipt\<close>

lemma max_length_hint:
  "lit ''Message too long. Max '' @ decimal MAX_MESSAGE_LENGTH @ lit '' characters.''
     = lit ''Message too long. Max 120 characters.''"
  by (simp add: decimal.simps MAX_MESSAGE_LENGTH_def lit_def)

text \<open>
  Claim C7. When awaiting the receipt throws, the transaction has been broadcast and
  its hash is known, and the claim wants a failure with the raw message and that hash.
  The code returns a failure whose \<open>txHash\<close> is absent: \<open>hash\<close> is a constant of the
  \<open>try\<close> block, out of the reach of the \<open>catch\<close>, while the failure for a reverted
  receipt, returned inside the block, carries it. The error is the message of the
  exception, or the hint for the first of \<open>InsufficientPayment\<close>, \<open>MessageTooLong\<close> and
  \<open>InvalidSignature\<close> that the message contains. The theorem is what the code returns.
\<close>

theorem receipt_exception_outcome:
  "(WaitForTransactionReceipt rpc hash \<in> set (snd (postMessage w text))
      \<and> waitForTransactionReceipt w rpc hash = Inl err \<longrightarrow>
    fst (postMessage w text) =
      Inr \<lparr> success = False, tokenId = None, txHash = None,
            error = Some
              (if js_includes (errorMessage err) (lit ''InsufficientPayment'')
               then lit ''Insufficient funds. You need 0.0005 ETH to post.''
               else if js_includes (errorMessage err) (lit ''MessageTooLong'')
               then lit ''Message too long. Max 120 characters.''
               else if js_includes (errorMessage err) (lit ''InvalidSignature'')
               then lit ''Signature verification failed. Ensure your wallet is verified for your FID.''
               else errorMessage err) \<rparr>)
   \<and> (WaitForTransactionReceipt rpc hash \<in> set (snd (postPinMessage w text))
      \<and> waitForTransactionReceipt w rpc hash = Inl err \<longrightarrow>
    fst (postPinMessage w text) =
      Inr \<lparr> success = False, tokenId = None, txHash = None,
            error = Some
              (if js_includes (errorMessage err) (lit ''InsufficientPayment'')
               then lit ''Insufficient funds. Pinned posts cost 0.005 ETH.''
               else if js_includes (errorMessage err) (lit ''MessageTooLong'')
               then lit ''Message too long. Max 120 characters.''
               else if js_includes (errorMessage err) (lit ''InvalidSignature'')
               then lit ''Signature verification failed. Ensure your wallet is verified for your FID.''
               else errorMessage err) \<rparr>)"
proof (intro conjI impI)
  assume a: "WaitForTransactionReceipt rpc hash \<in> set (snd (postMessage w text))
      \<and> waitForTransactionReceipt w rpc hash = Inl err"
  then have "fst (postMessage w text) = Inr (postMessage_catch err)"
    unfolding postMessage_post using post_with_wait_throws by blast
  then show "fst (postMessage w text) =
      Inr \<lparr> success = False, tokenId = None, txHash = None,
            error = Some
              (if js_includes (errorMessage err) (lit ''InsufficientPayment'')
               then lit ''Insufficient funds. You need 0.0005 ETH to post.''
               else if js_includes (errorMessage err) (lit ''MessageTooLong'')
               then lit ''Message too long. Max 120 characters.''
               else if js_includes (errorMessage err) (lit ''InvalidSignature'')
               then lit ''Signature verification failed. Ensure your wallet is verified for your FID.''
               else errorMessage err) \<rparr>"
    by (simp add: postMessage_catch_def Let_def failure_def max_length_hint)
next
  assume a: "WaitForTransactionReceipt rpc hash \<in> set (snd (postPinMessage w text))
      \<and> waitForTransactionReceipt w rpc hash = Inl err"
  then have "fst (postPinMessage w text) = Inr (postPinMessage_catch err)"
    unfolding postPinMessage_post using post_with_wait_throws by blast
  then show "fst (postPinMessage w text) =
      Inr \<lparr> success = False, tokenId = None, txHash = None,
            error = Some
              (if js_includes (errorMessage err) (lit ''InsufficientPayment'')
               then lit ''Insufficient funds. Pinned posts cost 0.005 ETH.''
               else if js_includes (errorMessage err) (lit ''MessageTooLong'')
               then lit ''Message too long. Max 120 characters.''
               else if js_includes (errorMessage err) (lit ''InvalidSignature'')
               then lit ''Signature verification failed. Ensure your wallet is verified for your FID.''
               else errorMessage err) \<rparr>"
    by (simp add: postPinMessage_catch_def Let_def failure_def max_length_hint)
qed

lemma timeout_has_no_keyword:
  "\<not> js_includes (lit ''timeout'') (lit ''InsufficientPayment'')"
  "\<not> js_includes (lit ''timeout'') (lit ''MessageTooLong'')"
  "\<not> js_includes (lit ''timeout'') (lit ''InvalidSignature'')"
  by (simp_all add: lit_def startsWith_def)

lemma includes_MessageTooLong:
  "\<not> js_includes (lit ''MessageTooLong()'') (lit ''InsufficientPayment'')"
  "js_includes (lit ''MessageTooLong()'') (lit ''MessageTooLong'')"
  by (simp_all add: lit_def startsWith_def)

lemma example_throwing_wait_run:
  "post_with fn price handler
     (example_world signed_response (Inr example_hash) (Inl err) decode) (lit ''  hi '')
   = (Inr (handler err),
      [Fetch example_sign_request, WriteContract (example_write_request fn price),
       WaitForTransactionReceipt example_rpc example_hash])"
  by (simp add: example_signed_run)

text \<open>A timeout for \<open>postMessage\<close>, a message with \<open>MessageTooLong\<close> for \<open>postPinMessage\<close>.\<close>

theorem receipt_exception_outcome_witness:
  "fst (postMessage
          (example_world signed_response (Inr example_hash) (Inl (Error (lit ''timeout'')))
             example_decode)
          (lit ''  hi ''))
     = Inr \<lparr> success = False, tokenId = None, txHash = None, error = Some (lit ''timeout'') \<rparr>
   \<and> fst (postPinMessage
          (example_world signed_response (Inr example_hash) (Inl (Thrown (lit ''MessageTooLong()'')))
             example_decode)
          (lit ''  hi ''))
     = Inr \<lparr> success = False, tokenId = None, txHash = None,
             error = Some (lit ''Message too long. Max 120 characters.'') \<rparr>"
proof -
  define W where "W = example_world signed_response (Inr example_hash)
    (Inl (Error (lit ''timeout''))) example_decode"
  define W' where "W' = example_world signed_response (Inr example_hash)
    (Inl (Thrown (lit ''MessageTooLong()''))) example_decode"
  have m: "WaitForTransactionReceipt example_rpc example_hash
      \<in> set (snd (postMessage W (lit ''  hi '')))"
    by (simp add: W_def postMessage_post example_throwing_wait_run)
  have m': "WaitForTransactionReceipt example_rpc example_hash
      \<in> set (snd (postPinMessage W' (lit ''  hi '')))"
    by (simp add: W'_def postPinMessage_post example_throwing_wait_run)
  have wt: "waitForTransactionReceipt W example_rpc example_hash = Inl (Error (lit ''timeout''))"
    by (simp add: W_def example_wait)
  have wt': "waitForTransactionReceipt W' example_rpc example_hash
      = Inl (Thrown (lit ''MessageTooLong()''))"
    by (simp add: W'_def example_wait)
  have "fst (postMessage W (lit ''  hi ''))
     = Inr \<lparr> success = False, tokenId = None, txHash = None, error = Some (lit ''timeout'') \<rparr>"
    using receipt_exception_outcome [of example_rpc example_hash W "lit ''  hi ''"
        "Error (lit ''timeout'')"] m wt
    by (simp add: errorMessage_def timeout_has_no_keyword)
  moreover have "fst (postPinMessage W' (lit ''  hi ''))
     = Inr \<lparr> success = False, tokenId = None, txHash = None,
             error = Some (lit ''Message too long. Max 120 characters.'') \<rparr>"
    using receipt_exception_outcome [of example_rpc example_hash W' "lit ''  hi ''"
        "Thrown (lit ''MessageTooLong()'')"] m' wt'
    by (simp add: errorMessage_def includes_MessageTooLong)
  ultimately show ?thesis unfolding W_def W'_def by (intro conjI)
qed

text \<open>
  The run in full: the broadcast returns the hash, awaiting the receipt times out, and
  the failure carries no hash.
\<close>

lemma receipt_timeout_drops_hash:
  "writeContract
     (example_world signed_response (Inr example_hash) (Inl (Error (lit ''timeout''))) example_decode)
     (example_write_request ''mint'' PRICE_WEI) = Inr example_hash
   \<and> postMessage
       (example_world signed_response (Inr example_hash) (Inl (Error (lit ''timeout''))) example_decode)
       (lit ''  hi '')
     = (Inr \<lparr> success = False, tokenId = None, txHash = None, error = Some (lit ''timeout'') \<rparr>,
        [Fetch example_sign_request, WriteContract (example_write_request ''mint'' PRICE_WEI),
         WaitForTransactionReceipt example_rpc example_hash])"
  by (simp add: postMessage_post example_throwing_wait_run postMessage_catch_def errorMessage_def
        timeout_has_no_keyword failure_def)
     (simp add: example_world_def)

section \<open>A failure of the signing API\<close>

text \<open>
  Claim C5. When the signing API answers with a status that is not a success,
  \<open>postMessage\<close> and \<open>postPinMessage\<close> make no further call, so nothing is submitted to
  the chain. If the body of the answer parses, the result is a failure with the
  \<open>error\<close> of the body, or with \<open>Failed to get signature from API\<close> when the body has
  none or an empty one. If parsing the body throws, the run does not return a failure:
  the exception escapes and the promise is rejected, because the body is parsed before
  the status is tested and outside any \<open>try\<close>.
\<close>

theorem api_failure_outcome:
  assumes "f = postMessage \<or> f = postPinMessage"
      and "Fetch rq \<in> set (snd (f w text))"
      and "fetch w rq = Inr resp"
      and "\<not> ok resp"
  shows "f w text =
           (case json resp of
              Inl err \<Rightarrow> (Inl err, [Fetch rq])
            | Inr d \<Rightarrow>
                (Inr (failure (or_else (data_error d) (lit ''Failed to get signature from API''))),
                 [Fetch rq]))"
proof -
  from assms(1) obtain fn price handler where f: "f = post_with fn price handler"
    by (auto simp: postMessage_post postPinMessage_post)
  from post_with_api_failure [OF assms(2) [unfolded f] assms(3,4)]
  show ?thesis unfolding f .
qed

lemma example_fetch_made:
  "Fetch example_sign_request
     \<in> set (snd (post_with fn price handler (example_world response written confirmed decode)
          (lit ''  hi '')))"
proof -
  obtain rest where "snd (signed_run fn price handler
      (example_world response written confirmed decode) example_config (lit ''0xA11CE'') (lit ''hi''))
    = Fetch (sign_request example_config (lit ''hi'') (lit ''0xA11CE'')) # rest"
    using signed_run_starts_with_fetch by blast
  then show ?thesis by (simp add: example_run example_sign_request_def)
qed

lemma example_fetch:
  "fetch (example_world response written confirmed decode) rq = response"
  by (simp add: example_world_def)

text \<open>
  A 502 whose body is not JSON, for which the run is rejected, and a 403 with an
  \<open>error\<close> in its body and a 500 with an empty object, for which it returns a failure.
\<close>

theorem api_failure_outcome_witness:
  "postMessage
     (example_world
        (Inr \<lparr> ok = False, json = Inl (Error (lit ''Unexpected token < in JSON at position 0'')) \<rparr>)
        (Inr example_hash) (Inl (Error [])) example_decode)
     (lit ''  hi '')
   = (Inl (Error (lit ''Unexpected token < in JSON at position 0'')), [Fetch example_sign_request])
   \<and> postMessage
     (example_world
        (Inr \<lparr> ok = False,
               json = Inr \<lparr> data_error = Some (lit ''Wallet not verified''), data_signature = None \<rparr> \<rparr>)
        (Inr example_hash) (Inl (Error [])) example_decode)
     (lit ''  hi '')
   = (Inr (failure (lit ''Wallet not verified'')), [Fetch example_sign_request])
   \<and> postPinMessage
     (example_world
        (Inr \<lparr> ok = False, json = Inr \<lparr> data_error = None, data_signature = None \<rparr> \<rparr>)
        (Inr example_hash) (Inl (Error [])) example_decode)
     (lit ''  hi '')
   = (Inr (failure (lit ''Failed to get signature from API'')), [Fetch example_sign_request])"
proof -
  have n: "lit ''Wallet not verified'' \<noteq> []" by (simp add: lit_def)
  have "postMessage
     (example_world
        (Inr \<lparr> ok = False, json = Inl (Error (lit ''Unexpected token < in JSON at position 0'')) \<rparr>)
        (Inr example_hash) (Inl (Error [])) example_decode)
     (lit ''  hi '')
   = (Inl (Error (lit ''Unexpected token < in JSON at position 0'')), [Fetch example_sign_request])"
    using api_failure_outcome [OF disjI1 [OF refl]
        example_fetch_made [of "''mint''" PRICE_WEI postMessage_catch, folded postMessage_post]
        example_fetch]
    by simp
  moreover have "postMessage
     (example_world
        (Inr \<lparr> ok = False,
               json = Inr \<lparr> data_error = Some (lit ''Wallet not verified''), data_signature = None \<rparr> \<rparr>)
        (Inr example_hash) (Inl (Error [])) example_decode)
     (lit ''  hi '')
   = (Inr (failure (lit ''Wallet not verified'')), [Fetch example_sign_request])"
    using api_failure_outcome [OF disjI1 [OF refl]
        example_fetch_made [of "''mint''" PRICE_WEI postMessage_catch, folded postMessage_post]
        example_fetch]
    by (simp add: or_else_def n)
  moreover have "postPinMessage
     (example_world
        (Inr \<lparr> ok = False, json = Inr \<lparr> data_error = None, data_signature = None \<rparr> \<rparr>)
        (Inr example_hash) (Inl (Error [])) example_decode)
     (lit ''  hi '')
   = (Inr (failure (lit ''Failed to get signature from API'')), [Fetch example_sign_request])"
    using api_failure_outcome [OF disjI2 [OF refl]
        example_fetch_made [of "''mintPin''" PIN_PRICE_WEI postPinMessage_catch,
          folded postPinMessage_post]
        example_fetch]
    by (simp add: or_else_def)
  ultimately show ?thesis by (intro conjI)
qed

end
